theory Spec2Isabelle
  imports Complex_Main "HOL-Library.Sublist"
begin

section \<open>Python values, exceptions and built-ins\<close>

text \<open>
  The scripts work on the trees that \<^verbatim>\<open>json.load\<close> and \<^verbatim>\<open>yaml.safe_load\<close> return:
  \<^verbatim>\<open>Dict[str, Any]\<close> in the type hints. A dictionary is an association list in
  insertion order, read with \<open>map_of\<close>. A float is a rational, an infinity or NaN,
  which is all the range checks of the validator look at.
\<close>

datatype pyfloat = Fin rat | PInf | NInf | NaN

datatype jv =
    JNull
  | JBool bool
  | JInt int
  | JFloat pyfloat
  | JStr string
  | JList "jv list"
  | JDict "(string \<times> jv) list"

datatype exn_class =
    KeyError | TypeError | AttributeError | IndexError | ValueError
  | FileNotFoundError | OperationalError | ProgrammingError | OtherError

text \<open>An exception: its class and its text (\<^verbatim>\<open>str(e)\<close>).\<close>

datatype exn = Exn exn_class string

text \<open>Python truthiness (\<^verbatim>\<open>if x:\<close>, \<^verbatim>\<open>not x\<close>, \<^verbatim>\<open>x or y\<close>).\<close>

fun py_truthy :: "jv \<Rightarrow> bool" where
  "py_truthy JNull = False"
| "py_truthy (JBool b) = b"
| "py_truthy (JInt i) = (i \<noteq> 0)"
| "py_truthy (JFloat f) = (f \<noteq> Fin 0)"
| "py_truthy (JStr s) = (s \<noteq> [])"
| "py_truthy (JList xs) = (xs \<noteq> [])"
| "py_truthy (JDict kvs) = (kvs \<noteq> [])"

text \<open>\<^verbatim>\<open>x or y\<close>: the first operand when it is truthy, the second otherwise.\<close>

definition py_or :: "jv \<Rightarrow> jv \<Rightarrow> jv" where
  "py_or x y = (if py_truthy x then x else y)"

text \<open>\<^verbatim>\<open>d.get(k, default)\<close> and \<^verbatim>\<open>k in d\<close> on a dictionary.\<close>

definition dict_get :: "(string \<times> jv) list \<Rightarrow> string \<Rightarrow> jv \<Rightarrow> jv" where
  "dict_get kvs k d = (case map_of kvs k of Some v \<Rightarrow> v | None \<Rightarrow> d)"

definition dict_has :: "(string \<times> jv) list \<Rightarrow> string \<Rightarrow> bool" where
  "dict_has kvs k = (map_of kvs k \<noteq> None)"

text \<open>
  \<^verbatim>\<open>x.get(k, default)\<close> on any value: only a dictionary has the method, every other
  value raises AttributeError.
\<close>

fun py_get :: "jv \<Rightarrow> string \<Rightarrow> jv \<Rightarrow> exn + jv" where
  "py_get (JDict kvs) k d = Inr (dict_get kvs k d)"
| "py_get _ k d = Inl (Exn AttributeError ''object has no attribute get'')"

text \<open>\<^verbatim>\<open>x[k]\<close> with a string key: KeyError on a dictionary without the key, TypeError on
  a value that is not a dictionary.\<close>

fun py_getitem :: "jv \<Rightarrow> string \<Rightarrow> exn + jv" where
  "py_getitem (JDict kvs) k =
     (case map_of kvs k of Some v \<Rightarrow> Inr v | None \<Rightarrow> Inl (Exn KeyError k))"
| "py_getitem _ k = Inl (Exn TypeError ''indices must be integers or not subscriptable'')"

text \<open>\<^verbatim>\<open>p in s\<close> on strings: \<open>p\<close> occurs in \<open>s\<close> as a contiguous block.\<close>

fun is_substring :: "string \<Rightarrow> string \<Rightarrow> bool" where
  "is_substring p [] = (p = [])"
| "is_substring p (c # cs) = (prefix p (c # cs) \<or> is_substring p cs)"

text \<open>\<^verbatim>\<open>sep.join(xs)\<close> on a list of strings.\<close>

fun join :: "string \<Rightarrow> string list \<Rightarrow> string" where
  "join sep [] = []"
| "join sep [x] = x"
| "join sep (x # y # ys) = x @ sep @ join sep (y # ys)"

section \<open>The world outside the scripts\<close>

text \<open>
  What the scripts read and cannot change: the process environment and the two secret
  stores. A store call returns the response or raises; the exception is a value.
\<close>

record env =
  environ :: "string \<rightharpoonup> string"
  get_secret_value :: "jv \<Rightarrow> exn + jv"
  get_parameter :: "jv \<Rightarrow> exn + jv"

datatype store = SecretsManager | ParameterStore

text \<open>
  What the resolver does to the outside: the lines it prints on the diagnostic stream,
  and the calls it makes to a store (the store and the key asked for).
\<close>

record effects =
  stderr :: "string list"
  fetches :: "(store \<times> jv) list"

definition print_err :: "string \<Rightarrow> effects \<Rightarrow> effects" where
  "print_err s w = w\<lparr>stderr := stderr w @ [s]\<rparr>"

section \<open>Credential resolver (transform-config.py)\<close>

text \<open>
  \<^verbatim>\<open>fetch_secret\<close>: the call and the read of \<^verbatim>\<open>response['SecretString']\<close> are the
  body of one \<^verbatim>\<open>try\<close> (\<open>secret_string\<close>); \<^verbatim>\<open>except Exception\<close> prints a fixed line
  and returns the sentinel.
\<close>

definition secret_string :: "env \<Rightarrow> jv \<Rightarrow> exn + jv" where
  "secret_string E secret_id =
     (case get_secret_value E secret_id of
        Inl e \<Rightarrow> Inl e
      | Inr response \<Rightarrow> py_getitem response ''SecretString'')"

definition fetch_secret :: "env \<Rightarrow> jv \<Rightarrow> effects \<Rightarrow> effects \<times> jv" where
  "fetch_secret E secret_id w =
     (let w1 = w\<lparr>fetches := fetches w @ [(SecretsManager, secret_id)]\<rparr> in
      case secret_string E secret_id of
        Inr v \<Rightarrow> (w1, v)
      | Inl e \<Rightarrow>
          (print_err ''Error fetching secret: Failed to retrieve credentials'' w1,
           JStr ''ERROR_FETCHING_SECRET''))"

text \<open>\<^verbatim>\<open>fetch_ssm_parameter\<close>, the same for \<^verbatim>\<open>response['Parameter']['Value']\<close>.\<close>

definition parameter_value :: "env \<Rightarrow> jv \<Rightarrow> exn + jv" where
  "parameter_value E parameter_name =
     (case get_parameter E parameter_name of
        Inl e \<Rightarrow> Inl e
      | Inr response \<Rightarrow>
          (case py_getitem response ''Parameter'' of
             Inl e \<Rightarrow> Inl e
           | Inr p \<Rightarrow> py_getitem p ''Value''))"

definition fetch_ssm_parameter :: "env \<Rightarrow> jv \<Rightarrow> effects \<Rightarrow> effects \<times> jv" where
  "fetch_ssm_parameter E parameter_name w =
     (let w1 = w\<lparr>fetches := fetches w @ [(ParameterStore, parameter_name)]\<rparr> in
      case parameter_value E parameter_name of
        Inr v \<Rightarrow> (w1, v)
      | Inl e \<Rightarrow>
          (print_err ''Error fetching SSM parameter: Failed to retrieve credentials'' w1,
           JStr ''ERROR_FETCHING_PARAMETER''))"

text \<open>
  \<^verbatim>\<open>os.environ.get(name, default)\<close>: a name that is not a string raises TypeError
  (the environment encodes its keys).
\<close>

fun environ_get :: "env \<Rightarrow> jv \<Rightarrow> string \<Rightarrow> exn + jv" where
  "environ_get E (JStr name) d =
     Inr (JStr (case environ E name of Some v \<Rightarrow> v | None \<Rightarrow> d))"
| "environ_get E _ d = Inl (Exn TypeError ''str expected'')"

text \<open>The dictionary \<^verbatim>\<open>resolved\<close> has the two keys \<^verbatim>\<open>user\<close> and \<^verbatim>\<open>password\<close>.\<close>

record resolved =
  user :: jv
  password :: jv

fun resolve_credentials :: "env \<Rightarrow> jv \<Rightarrow> effects \<Rightarrow> effects \<times> (exn + resolved)" where
  "resolve_credentials E (JDict credentials) w =
     (let username = dict_get credentials ''username'' (JStr ''newrelic'');
          password_source = dict_get credentials ''password_source'' (JStr ''plain'')
      in
        if password_source = JStr ''aws_secrets_manager'' then
          (let password_key = dict_get credentials ''password_key'' JNull in
           if py_truthy password_key then
             (let (w', p) = fetch_secret E password_key w
              in (w', Inr \<lparr>user = username, password = p\<rparr>))
           else (w, Inr \<lparr>user = username, password = JStr ''MISSING_PASSWORD_KEY''\<rparr>))
        else if password_source = JStr ''aws_ssm_parameter'' then
          (let password_key = dict_get credentials ''password_key'' JNull in
           if py_truthy password_key then
             (let (w', p) = fetch_ssm_parameter E password_key w
              in (w', Inr \<lparr>user = username, password = p\<rparr>))
           else (w, Inr \<lparr>user = username, password = JStr ''MISSING_PASSWORD_KEY''\<rparr>))
        else if password_source = JStr ''env_var'' then
          (let env_var = dict_get credentials ''password_env'' JNull in
           if py_truthy env_var then
             (case environ_get E env_var ''ENV_VAR_NOT_SET'' of
                Inl e \<Rightarrow> (w, Inl e)
              | Inr p \<Rightarrow> (w, Inr \<lparr>user = username, password = p\<rparr>))
           else (w, Inr \<lparr>user = username, password = JStr ''MISSING_PASSWORD_ENV''\<rparr>))
        else
          (w, Inr \<lparr>user = username,
                   password = dict_get credentials ''password'' (JStr ''MISSING_PASSWORD'')\<rparr>))"
| "resolve_credentials E _ w = (w, Inl (Exn AttributeError ''object has no attribute get''))"

section \<open>Config transformer (transform-config.py)\<close>

definition bind_exn :: "exn + 'a \<Rightarrow> ('a \<Rightarrow> exn + 'b) \<Rightarrow> exn + 'b" where
  "bind_exn m f = (case m of Inl e \<Rightarrow> Inl e | Inr v \<Rightarrow> f v)"

text \<open>\<^verbatim>\<open>a or b\<close> where either operand may raise; \<open>b\<close> is evaluated only when \<open>a\<close> is falsy.\<close>

definition or_else :: "exn + jv \<Rightarrow> exn + jv \<Rightarrow> exn + jv" where
  "or_else a b = (case a of Inl e \<Rightarrow> Inl e | Inr x \<Rightarrow> if py_truthy x then Inr x else b)"

text \<open>\<^verbatim>\<open>d[k] = v\<close>: an existing key keeps its place, a new key goes last.\<close>

fun dict_set :: "(string \<times> jv) list \<Rightarrow> string \<Rightarrow> jv \<Rightarrow> (string \<times> jv) list" where
  "dict_set [] k v = [(k, v)]"
| "dict_set ((k', v') # kvs) k v =
     (if k' = k then (k, v) # kvs else (k', v') # dict_set kvs k v)"

text \<open>The loop over \<^verbatim>\<open>labels.items()\<close> that fills \<^verbatim>\<open>custom_labels\<close>.\<close>

definition custom_labels :: "(string \<times> jv) list \<Rightarrow> (string \<times> jv) list" where
  "custom_labels labels =
     fold (\<lambda>(key, val) acc. if key \<noteq> ''environment'' then dict_set acc key val else acc)
       labels []"

text \<open>
  The body of \<^verbatim>\<open>transform_database\<close> after the credentials are resolved builds
  \<^verbatim>\<open>ansible_db\<close> and has no effect on the outside. It is cut here at the source's own
  comments, one definition for each block. Every \<^verbatim>\<open>db.get(section, {}).get(...)\<close>
  raises AttributeError when the section is not a dictionary, and \<^verbatim>\<open>db['type']\<close> raises
  KeyError when the entry has no type: the default port is an argument, evaluated
  whether or not the connection has a port.
\<close>

type_synonym dict = "(string \<times> jv) list"

text \<open>\<^verbatim>\<open># Base configuration\<close>: the dictionary display, its values evaluated in order.\<close>

definition base_configuration :: "dict \<Rightarrow> resolved \<Rightarrow> exn + dict" where
  "base_configuration db creds =
     (let connection = dict_get db ''connection'' (JDict []) in
      bind_exn (or_else (or_else (py_get connection ''host'' JNull)
                                 (py_get connection ''endpoint'' JNull))
                        (py_get connection ''cluster_endpoint'' JNull)) (\<lambda>host.
      bind_exn (py_getitem (JDict db) ''type'') (\<lambda>type.
      bind_exn (py_get connection ''port''
                  (JInt (if type = JStr ''mysql'' then 3306 else 5432))) (\<lambda>port.
      bind_exn (py_get (dict_get db ''labels'' (JDict [])) ''environment''
                  (JStr ''production'')) (\<lambda>environment.
      Inr [(''host'', host), (''port'', port), (''user'', user creds),
           (''password'', password creds),
           (''service_name'', dict_get db ''name'' JNull),
           (''environment'', environment)])))))"

text \<open>\<^verbatim>\<open># Add database-specific fields\<close>.\<close>

definition database_specific_fields :: "dict \<Rightarrow> dict \<Rightarrow> exn + dict" where
  "database_specific_fields db ansible_db =
     (let connection = dict_get db ''connection'' (JDict []) in
      bind_exn (py_getitem (JDict db) ''type'') (\<lambda>type.
      if type = JStr ''postgresql'' then
        bind_exn (py_get connection ''database'' (JStr ''postgres'')) (\<lambda>database.
        bind_exn (py_get connection ''ssl_mode'' (JStr ''require'')) (\<lambda>ssl_mode.
        Inr (dict_set (dict_set ansible_db ''database'' database) ''sslmode'' ssl_mode)))
      else Inr ansible_db))"

text \<open>\<^verbatim>\<open># Monitoring settings\<close> and \<^verbatim>\<open># Query monitoring\<close>.\<close>

definition monitoring_settings :: "dict \<Rightarrow> dict \<Rightarrow> exn + dict" where
  "monitoring_settings db ansible_db =
     (let monitoring = dict_get db ''monitoring'' (JDict []) in
      bind_exn (py_get monitoring ''extended_metrics'' (JBool True)) (\<lambda>extended_metrics.
      bind_exn (py_get monitoring ''interval'' (JStr ''30s'')) (\<lambda>interval.
      bind_exn (py_get monitoring ''enable_query_monitoring'' (JBool True)) (\<lambda>eqm.
      bind_exn (py_get monitoring ''query_metrics_interval'' (JStr ''60s'')) (\<lambda>qmi.
      bind_exn (py_get monitoring ''max_sql_query_length'' (JInt 1000)) (\<lambda>msql.
      bind_exn (py_get monitoring ''gather_query_samples'' (JBool True)) (\<lambda>gqs.
      Inr (dict_set (dict_set (dict_set (dict_set (dict_set (dict_set ansible_db
             ''extended_metrics'' extended_metrics)
             ''interval'' interval)
             ''enable_query_monitoring'' eqm)
             ''query_metrics_interval'' qmi)
             ''max_sql_query_length'' msql)
             ''gather_query_samples'' gqs))))))))"

text \<open>\<^verbatim>\<open># PostgreSQL specific\<close>.\<close>

definition postgresql_specific :: "dict \<Rightarrow> dict \<Rightarrow> exn + dict" where
  "postgresql_specific db ansible_db =
     (let monitoring = dict_get db ''monitoring'' (JDict []) in
      bind_exn (py_getitem (JDict db) ''type'') (\<lambda>type.
      if type = JStr ''postgresql'' then
        bind_exn (py_get monitoring ''collect_bloat_metrics'' (JBool True)) (\<lambda>bloat.
        bind_exn (py_get monitoring ''collect_db_lock_metrics'' (JBool True)) (\<lambda>lock.
        Inr (dict_set (dict_set ansible_db ''collect_bloat_metrics'' bloat)
               ''collect_db_lock_metrics'' lock)))
      else Inr ansible_db))"

text \<open>\<^verbatim>\<open># TLS settings\<close>.\<close>

definition tls_settings :: "dict \<Rightarrow> dict \<Rightarrow> exn + dict" where
  "tls_settings db ansible_db =
     (let tls = dict_get db ''tls'' (JDict []) in
      bind_exn (py_get tls ''enabled'' JNull) (\<lambda>enabled.
      if py_truthy enabled then
        bind_exn (py_get tls ''ca_bundle_file'' JNull) (\<lambda>ca.
        if py_truthy ca then
          bind_exn (py_getitem tls ''ca_bundle_file'') (\<lambda>ca'.
          Inr (dict_set (dict_set ansible_db ''tls_enabled'' (JBool True)) ''tls_ca'' ca'))
        else Inr (dict_set ansible_db ''tls_enabled'' (JBool True)))
      else Inr ansible_db))"

text \<open>\<^verbatim>\<open># Custom labels\<close>: \<^verbatim>\<open>.items()\<close> needs a dictionary.\<close>

definition custom_labels_field :: "dict \<Rightarrow> dict \<Rightarrow> exn + dict" where
  "custom_labels_field db ansible_db =
     (case dict_get db ''labels'' (JDict []) of
        JDict labels \<Rightarrow>
          Inr (dict_set ansible_db ''custom_labels'' (JDict (custom_labels labels)))
      | _ \<Rightarrow> Inl (Exn AttributeError ''object has no attribute items''))"

definition ansible_entry :: "dict \<Rightarrow> resolved \<Rightarrow> exn + jv" where
  "ansible_entry db creds =
     bind_exn (base_configuration db creds) (\<lambda>ansible_db.
     bind_exn (database_specific_fields db ansible_db) (\<lambda>ansible_db.
     bind_exn (monitoring_settings db ansible_db) (\<lambda>ansible_db.
     bind_exn (postgresql_specific db ansible_db) (\<lambda>ansible_db.
     bind_exn (tls_settings db ansible_db) (\<lambda>ansible_db.
     bind_exn (custom_labels_field db ansible_db) (\<lambda>ansible_db.
     Inr (JDict ansible_db)))))))"

text \<open>
  \<^verbatim>\<open>transform_database\<close>: \<^verbatim>\<open>None\<close> (here \<open>JNull\<close>) for an entry whose \<^verbatim>\<open>enabled\<close> is
  falsy, before anything else is read; otherwise the credentials are resolved (with
  the resolver's effects) and the flat entry is built.
\<close>

fun transform_database :: "env \<Rightarrow> jv \<Rightarrow> effects \<Rightarrow> effects \<times> (exn + jv)" where
  "transform_database E (JDict db) w =
     (if \<not> py_truthy (dict_get db ''enabled'' (JBool True)) then (w, Inr JNull)
      else
        case resolve_credentials E (dict_get db ''credentials'' (JDict [])) w of
          (w', Inl e) \<Rightarrow> (w', Inl e)
        | (w', Inr creds) \<Rightarrow> (w', ansible_entry db creds))"
| "transform_database E _ w = (w, Inl (Exn AttributeError ''object has no attribute get''))"

text \<open>
  \<^verbatim>\<open>for db in xs\<close>: a list gives its elements, a string its characters, a dictionary
  its keys; anything else is not iterable.
\<close>

fun py_iter :: "jv \<Rightarrow> exn + jv list" where
  "py_iter (JList xs) = Inr xs"
| "py_iter (JStr s) = Inr (map (\<lambda>c. JStr [c]) s)"
| "py_iter (JDict kvs) = Inr (map (\<lambda>kv. JStr (fst kv)) kvs)"
| "py_iter _ = Inl (Exn TypeError ''object is not iterable'')"

text \<open>
  The loop of \<^verbatim>\<open>transform_config\<close> over one engine's entries: \<open>acc\<close> is the list
  built so far, and an exception ends the loop with the effects made until then.
\<close>

fun transform_all :: "env \<Rightarrow> jv list \<Rightarrow> jv list \<Rightarrow> effects \<Rightarrow> effects \<times> (exn + jv list)" where
  "transform_all E [] acc w = (w, Inr acc)"
| "transform_all E (db # dbs) acc w =
     (case transform_database E db w of
        (w', Inl e) \<Rightarrow> (w', Inl e)
      | (w', Inr transformed) \<Rightarrow>
          transform_all E dbs (if py_truthy transformed then acc @ [transformed] else acc) w')"

definition environ_str :: "env \<Rightarrow> string \<Rightarrow> string \<Rightarrow> jv" where
  "environ_str E name d = JStr (case environ E name of Some v \<Rightarrow> v | None \<Rightarrow> d)"

fun transform_config :: "env \<Rightarrow> jv \<Rightarrow> effects \<Rightarrow> effects \<times> (exn + jv)" where
  "transform_config E (JDict input_config) w =
     (let output_config =
            [(''newrelic_license_key'', environ_str E ''NEWRELIC_LICENSE_KEY'' ''YOUR_LICENSE_KEY''),
             (''newrelic_account_id'', environ_str E ''NEWRELIC_ACCOUNT_ID'' ''YOUR_ACCOUNT_ID'')]
      in
      case py_iter (dict_get input_config ''mysql_databases'' (JList [])) of
        Inl e \<Rightarrow> (w, Inl e)
      | Inr ms \<Rightarrow>
          (case transform_all E ms [] w of
             (w1, Inl e) \<Rightarrow> (w1, Inl e)
           | (w1, Inr mysql_dbs) \<Rightarrow>
               (let output_config =
                      (if mysql_dbs \<noteq> [] then
                         dict_set output_config ''mysql_databases'' (JList mysql_dbs)
                       else output_config)
                in
                case py_iter (dict_get input_config ''postgresql_databases'' (JList [])) of
                  Inl e \<Rightarrow> (w1, Inl e)
                | Inr ps \<Rightarrow>
                    (case transform_all E ps [] w1 of
                       (w2, Inl e) \<Rightarrow> (w2, Inl e)
                     | (w2, Inr postgres_dbs) \<Rightarrow>
                         (w2, Inr (JDict
                            (if postgres_dbs \<noteq> [] then
                               dict_set output_config ''postgresql_databases''
                                 (JList postgres_dbs)
                             else output_config)))))))"
| "transform_config E _ w = (w, Inl (Exn AttributeError ''object has no attribute get''))"

section \<open>Notions the properties of the transformer are stated with\<close>

text \<open>
  An entry is disabled when the guard of \<^verbatim>\<open>transform_database\<close> drops it:
  \<^verbatim>\<open>not db.get('enabled', True)\<close>. The survivors of a list are its other entries.
\<close>

fun is_disabled :: "jv \<Rightarrow> bool" where
  "is_disabled (JDict db) = (\<not> py_truthy (dict_get db ''enabled'' (JBool True)))"
| "is_disabled _ = False"

definition survivors :: "jv list \<Rightarrow> jv list" where
  "survivors ds = filter (\<lambda>d. \<not> is_disabled d) ds"

definition no_effects :: effects where
  "no_effects = \<lparr>stderr = [], fetches = []\<rparr>"

text \<open>\<open>transforms_to E d t\<close>: \<^verbatim>\<open>transform_database\<close> returns \<open>t\<close> for the entry \<open>d\<close>.\<close>

definition transforms_to :: "env \<Rightarrow> jv \<Rightarrow> jv \<Rightarrow> bool" where
  "transforms_to E d t = (snd (transform_database E d no_effects) = Inr t)"

text \<open>
  What a top-level key of the output holds for a list of surviving entries: no key
  when there is none, and otherwise the list of their flat entries, in order.
\<close>

definition bucket_holds :: "env \<Rightarrow> jv list \<Rightarrow> jv option \<Rightarrow> bool" where
  "bucket_holds E entries bucket =
     (case bucket of
        None \<Rightarrow> entries = []
      | Some (JList ts) \<Rightarrow> entries \<noteq> [] \<and> list_all2 (transforms_to E) entries ts
      | Some _ \<Rightarrow> False)"

text \<open>The keys of the dictionary display that opens \<^verbatim>\<open>ansible_db\<close>.\<close>

definition base_keys :: "string set" where
  "base_keys = {''host'', ''port'', ''user'', ''password'', ''service_name'', ''environment''}"

text \<open>A field of the flat entry that a call returned, if it returned one.\<close>

definition flat_field :: "exn + jv \<Rightarrow> string \<Rightarrow> jv option" where
  "flat_field r k = (case r of Inr (JDict flat) \<Rightarrow> map_of flat k | _ \<Rightarrow> None)"

text \<open>
  The username as the specification describes it (not as the code computes it):
  resolved from \<^verbatim>\<open>user_source\<close> and its companion field the way the password is
  resolved from \<^verbatim>\<open>password_source\<close>. \<open>None\<close> where that sentence gives no value
  (a missing companion field, a fetch that fails).
\<close>

definition spec_resolve_user :: "env \<Rightarrow> dict \<Rightarrow> jv option" where
  "spec_resolve_user E c =
     (let user_source = dict_get c ''user_source'' (JStr ''plain'') in
      if user_source = JStr ''plain'' then map_of c ''user''
      else if user_source = JStr ''env_var'' then
        (case map_of c ''user_env'' of
           Some (JStr n) \<Rightarrow> map_option JStr (environ E n)
         | _ \<Rightarrow> None)
      else if user_source = JStr ''aws_secrets_manager'' then
        (case map_of c ''user_key'' of
           Some k \<Rightarrow> (case secret_string E k of Inr v \<Rightarrow> Some v | Inl e \<Rightarrow> None)
         | None \<Rightarrow> None)
      else if user_source = JStr ''aws_ssm_parameter'' then
        (case map_of c ''user_key'' of
           Some k \<Rightarrow> (case parameter_value E k of Inr v \<Rightarrow> Some v | Inl e \<Rightarrow> None)
         | None \<Rightarrow> None)
      else None)"

section \<open>Concrete inputs\<close>

text \<open>An environment without variables in which both stores refuse every key.\<close>

definition unreachable_stores :: env where
  "unreachable_stores =
     \<lparr>environ = Map.empty,
      get_secret_value = (\<lambda>k. Inl (Exn OtherError ''ResourceNotFoundException'')),
      get_parameter = (\<lambda>k. Inl (Exn OtherError ''ParameterNotFound''))\<rparr>"

text \<open>The entry of the specification's validation scenario, and its flat entry.\<close>

definition scenario_credentials :: dict where
  "scenario_credentials = [(''user'', JStr ''u''), (''password'', JStr ''p'')]"

definition scenario_entry :: dict where
  "scenario_entry =
     [(''name'', JStr ''db1''), (''type'', JStr ''mysql''),
      (''connection'', JDict [(''host'', JStr ''h''), (''port'', JInt 3306)]),
      (''credentials'', JDict scenario_credentials)]"

definition scenario_flat :: dict where
  "scenario_flat =
     [(''host'', JStr ''h''), (''port'', JInt 3306), (''user'', JStr ''newrelic''),
      (''password'', JStr ''p''), (''service_name'', JStr ''db1''),
      (''environment'', JStr ''production''), (''extended_metrics'', JBool True),
      (''interval'', JStr ''30s''), (''enable_query_monitoring'', JBool True),
      (''query_metrics_interval'', JStr ''60s''), (''max_sql_query_length'', JInt 1000),
      (''gather_query_samples'', JBool True), (''custom_labels'', JDict [])]"

text \<open>The entry of the round-trip property: an RDS endpoint and a plain password.\<close>

definition rds_entry :: dict where
  "rds_entry =
     [(''name'', JStr ''orders''), (''type'', JStr ''mysql''), (''provider'', JStr ''rds''),
      (''connection'', JDict [(''endpoint'', JStr ''a.b.com''), (''port'', JInt 3306)]),
      (''credentials'',
         JDict [(''password_source'', JStr ''plain''), (''password'', JStr ''secret1'')])]"

text \<open>The credentials of the integration test's missing secret.\<close>

definition missing_secret_credentials :: dict where
  "missing_secret_credentials =
     [(''username'', JStr ''newrelic''), (''password_source'', JStr ''aws_secrets_manager''),
      (''password_key'', JStr ''/nonexistent/secret'')]"

text \<open>A configuration with a disabled and an enabled MySQL entry and a disabled
  PostgreSQL entry.\<close>

definition disabled_old :: dict where
  "disabled_old = [(''name'', JStr ''old''), (''enabled'', JBool False)]"

definition mixed_config :: dict where
  "mixed_config =
     [(''mysql_databases'', JList [JDict disabled_old, JDict scenario_entry]),
      (''postgresql_databases'',
         JList [JDict [(''name'', JStr ''pg''), (''enabled'', JBool False)]])]"

section \<open>Schema validator (lib/validation.py)\<close>

subsection \<open>Built-ins and formatting\<close>

text \<open>
  What the validator takes from Python itself and the model takes as given: the text
  of a float, a list or a dictionary inside an f-string, whether
  \<^verbatim>\<open>ipaddress.ip_address\<close> accepts a value, the order in which a set of strings
  is iterated, and \<^verbatim>\<open>str.upper\<close> (used by the connection prober).
\<close>

record builtins =
  str_other :: "jv \<Rightarrow> string"
  ip_address_ok :: "jv \<Rightarrow> bool"
  set_order :: "string list \<Rightarrow> string list"
  str_upper :: "string \<Rightarrow> string"

text \<open>\<^verbatim>\<open>list(set(xs))\<close> has each element of \<open>xs\<close> once, in some order.\<close>

definition set_order_ok :: "builtins \<Rightarrow> bool" where
  "set_order_ok B = (\<forall>xs. distinct (set_order B xs) \<and> set (set_order B xs) = set xs)"

definition digit_char :: "nat \<Rightarrow> char" where
  "digit_char n = ''0123456789'' ! n"

function show_nat :: "nat \<Rightarrow> string" where
  "show_nat n =
     (if n < 10 then [digit_char n] else show_nat (n div 10) @ [digit_char (n mod 10)])"
  by pat_completeness auto
termination
  by (relation "measure id") auto

declare show_nat.simps [simp del]

definition show_int :: "int \<Rightarrow> string" where
  "show_int i = (if i < 0 then ''-'' @ show_nat (nat (- i)) else show_nat (nat i))"

text \<open>\<^verbatim>\<open>{v}\<close> in an f-string: \<^verbatim>\<open>str(v)\<close>.\<close>

fun py_str :: "builtins \<Rightarrow> jv \<Rightarrow> string" where
  "py_str B (JStr s) = s"
| "py_str B (JInt i) = show_int i"
| "py_str B (JBool b) = (if b then ''True'' else ''False'')"
| "py_str B JNull = ''None''"
| "py_str B v = str_other B v"

text \<open>\<^verbatim>\<open>'{v}'\<close>: the text between single quotes.\<close>

definition quoted :: "string \<Rightarrow> string" where
  "quoted s = [CHR 0x27] @ s @ [CHR 0x27]"

text \<open>\<^verbatim>\<open>k in x\<close> for a string \<open>k\<close>: a key of a dictionary, a block of a string, an
  element of a list; other values are not containers.\<close>

fun py_contains :: "jv \<Rightarrow> string \<Rightarrow> exn + bool" where
  "py_contains (JDict kvs) k = Inr (dict_has kvs k)"
| "py_contains (JStr s) k = Inr (is_substring k s)"
| "py_contains (JList xs) k = Inr (JStr k \<in> set xs)"
| "py_contains _ k = Inl (Exn TypeError ''argument is not iterable'')"

subsection \<open>The regular expressions\<close>

text \<open>
  Each pattern is \<^verbatim>\<open>^body$\<close> under \<^verbatim>\<open>re.match\<close>, and no body can match a newline:
  the string matches when the body is all of it, or all of it but a final newline
  (\<^verbatim>\<open>$\<close> also matches just before a newline that ends the string). The characters
  of the model are 8-bit, the classes are ASCII.
\<close>

definition at_end :: "(string \<Rightarrow> bool) \<Rightarrow> string \<Rightarrow> bool" where
  "at_end body s = (body s \<or> (s \<noteq> [] \<and> last s = CHR 0x0A \<and> body (butlast s)))"

definition is_digit :: "char \<Rightarrow> bool" where
  "is_digit c = (c \<in> set ''0123456789'')"

definition is_alnum :: "char \<Rightarrow> bool" where
  "is_alnum c =
     (c \<in> set ''abcdefghijklmnopqrstuvwxyz'' \<or> c \<in> set ''ABCDEFGHIJKLMNOPQRSTUVWXYZ''
      \<or> is_digit c)"

text \<open>\<^verbatim>\<open>[a-zA-Z0-9][a-zA-Z0-9_-]*\<close>\<close>

definition name_body :: "string \<Rightarrow> bool" where
  "name_body s =
     (case s of
        [] \<Rightarrow> False
      | c # cs \<Rightarrow> is_alnum c \<and> list_all (\<lambda>x. is_alnum x \<or> x = CHR ''_'' \<or> x = CHR ''-'') cs)"

text \<open>\<^verbatim>\<open>[a-zA-Z0-9]([a-zA-Z0-9-]{0,61}[a-zA-Z0-9])?\<close>: one label of a host name.\<close>

definition label_ok :: "string \<Rightarrow> bool" where
  "label_ok l =
     (l \<noteq> [] \<and> length l \<le> 63 \<and> is_alnum (hd l) \<and> is_alnum (last l)
      \<and> list_all (\<lambda>x. is_alnum x \<or> x = CHR ''-'') l)"

text \<open>The pieces of a string between the occurrences of a character.\<close>

fun split_on :: "char \<Rightarrow> string \<Rightarrow> string list" where
  "split_on d [] = [[]]"
| "split_on d (c # cs) =
     (if c = d then [] # split_on d cs
      else (case split_on d cs of
              [] \<Rightarrow> [[c]]
            | p # ps \<Rightarrow> (c # p) # ps))"

text \<open>\<^verbatim>\<open>label(\.label)*\<close>\<close>

definition hostname_body :: "string \<Rightarrow> bool" where
  "hostname_body s = list_all label_ok (split_on CHR ''.'' s)"

text \<open>\<^verbatim>\<open>\d+[smh]\<close>\<close>

definition interval_body :: "string \<Rightarrow> bool" where
  "interval_body s =
     (2 \<le> length s \<and> list_all is_digit (butlast s) \<and> last s \<in> set ''smh'')"

text \<open>\<^verbatim>\<open>[a-zA-Z0-9/_\-+=.@]+\<close>\<close>

definition secret_name_body :: "string \<Rightarrow> bool" where
  "secret_name_body s = (s \<noteq> [] \<and> list_all (\<lambda>x. is_alnum x \<or> x \<in> set ''/_-+=.@'') s)"

text \<open>\<^verbatim>\<open>/[a-zA-Z0-9/_\-.]+\<close>\<close>

definition ssm_name_body :: "string \<Rightarrow> bool" where
  "ssm_name_body s =
     (case s of
        [] \<Rightarrow> False
      | c # cs \<Rightarrow> c = CHR ''/'' \<and> cs \<noteq> []
                   \<and> list_all (\<lambda>x. is_alnum x \<or> x \<in> set ''/_-.'') cs)"

text \<open>\<^verbatim>\<open>bool(re.match(pattern, v))\<close>: TypeError when \<open>v\<close> is not a string.\<close>

fun re_match :: "(string \<Rightarrow> bool) \<Rightarrow> jv \<Rightarrow> exn + bool" where
  "re_match body (JStr s) = Inr (at_end body s)"
| "re_match body _ = Inl (Exn TypeError ''expected string or bytes-like object'')"

definition validate_name :: "jv \<Rightarrow> exn + bool" where
  "validate_name name = re_match name_body name"

text \<open>\<^verbatim>\<open>_validate_host\<close>: an IP address, or else a host name.\<close>

definition validate_host :: "builtins \<Rightarrow> jv \<Rightarrow> exn + bool" where
  "validate_host B host = (if ip_address_ok B host then Inr True else re_match hostname_body host)"

definition validate_interval :: "jv \<Rightarrow> exn + bool" where
  "validate_interval interval = re_match interval_body interval"

definition validate_aws_secret_name :: "jv \<Rightarrow> exn + bool" where
  "validate_aws_secret_name name = re_match secret_name_body name"

definition validate_ssm_parameter_name :: "jv \<Rightarrow> exn + bool" where
  "validate_ssm_parameter_name name = re_match ssm_name_body name"

subsection \<open>The accumulator\<close>

record vstate =
  errors :: "string list"
  warnings :: "string list"

definition add_error :: "string \<Rightarrow> vstate \<Rightarrow> vstate" where
  "add_error msg st = st\<lparr>errors := errors st @ [msg]\<rparr>"

definition add_warning :: "string \<Rightarrow> vstate \<Rightarrow> vstate" where
  "add_warning msg st = st\<lparr>warnings := warnings st @ [msg]\<rparr>"

text \<open>\<^verbatim>\<open>if c: self.errors.append(msg)\<close>\<close>

definition error_if :: "bool \<Rightarrow> string \<Rightarrow> vstate \<Rightarrow> vstate" where
  "error_if c msg st = (if c then add_error msg st else st)"

subsection \<open>\<^verbatim>\<open>_validate_connection\<close>\<close>

text \<open>\<^verbatim>\<open># Host validation\<close>\<close>

definition host_validation :: "builtins \<Rightarrow> dict \<Rightarrow> string \<Rightarrow> vstate \<Rightarrow> exn + vstate" where
  "host_validation B conn pfx st =
     (let hosts = [dict_get conn ''host'' JNull, dict_get conn ''endpoint'' JNull,
                   dict_get conn ''cluster_endpoint'' JNull];
          valid_hosts = filter py_truthy hosts
      in case valid_hosts of
           [] \<Rightarrow> Inr (add_error (pfx @ ''.connection: No host specified'') st)
         | [host] \<Rightarrow>
             bind_exn (validate_host B host) (\<lambda>ok.
             Inr (error_if (\<not> ok)
                    (pfx @ ''.connection: Invalid host '' @ quoted (py_str B host)) st))
         | _ \<Rightarrow>
             Inr (add_warning
                    (pfx @ ''.connection: Multiple hosts specified, will use first one'') st))"

text \<open>\<^verbatim>\<open># Port validation\<close>: \<^verbatim>\<open>isinstance(port, int)\<close> holds for an integer and for a
  Boolean (\<^verbatim>\<open>True\<close> is 1, \<^verbatim>\<open>False\<close> is 0).\<close>

fun port_invalid :: "jv \<Rightarrow> bool" where
  "port_invalid (JInt i) = (i < 1 \<or> i > 65535)"
| "port_invalid (JBool b) = (\<not> b)"
| "port_invalid _ = True"

definition port_validation :: "builtins \<Rightarrow> dict \<Rightarrow> string \<Rightarrow> vstate \<Rightarrow> vstate" where
  "port_validation B conn pfx st =
     (let port = dict_get conn ''port'' JNull in
      if port \<noteq> JNull then
        error_if (port_invalid port)
          (pfx @ ''.connection: Invalid port '' @ quoted (py_str B port)
               @ '' - must be 1-65535'') st
      else st)"

text \<open>\<^verbatim>\<open># SSL validation\<close>\<close>

definition ssl_validation :: "builtins \<Rightarrow> dict \<Rightarrow> string \<Rightarrow> vstate \<Rightarrow> vstate" where
  "ssl_validation B conn pfx st =
     (let ssl_mode = dict_get conn ''ssl_mode'' JNull in
      error_if (py_truthy ssl_mode
                \<and> ssl_mode \<notin> JStr ` {''disable'', ''require'', ''verify-ca'', ''verify-full'',
                                       ''prefer''})
        (pfx @ ''.connection: Invalid ssl_mode '' @ quoted (py_str B ssl_mode)) st)"

fun validate_connection :: "builtins \<Rightarrow> jv \<Rightarrow> string \<Rightarrow> vstate \<Rightarrow> exn + vstate" where
  "validate_connection B (JDict conn) pfx st =
     bind_exn (host_validation B conn pfx st) (\<lambda>st.
     Inr (ssl_validation B conn pfx (port_validation B conn pfx st)))"
| "validate_connection B _ pfx st = Inl (Exn AttributeError ''object has no attribute get'')"

subsection \<open>\<^verbatim>\<open>_validate_credentials\<close>\<close>

definition source_names :: "jv set" where
  "source_names =
     JStr ` {''plain'', ''aws_secrets_manager'', ''aws_ssm_parameter'', ''env_var''}"

definition aws_sources :: "jv set" where
  "aws_sources = JStr ` {''aws_secrets_manager'', ''aws_ssm_parameter''}"

text \<open>\<^verbatim>\<open># Username validation\<close>\<close>

definition username_validation :: "builtins \<Rightarrow> dict \<Rightarrow> string \<Rightarrow> vstate \<Rightarrow> vstate" where
  "username_validation B creds pfx st =
     (let user_source = dict_get creds ''user_source'' (JStr ''plain'');
          st = error_if (user_source \<notin> source_names)
                 (pfx @ ''.credentials: Invalid user_source '' @ quoted (py_str B user_source)) st
      in
      if user_source = JStr ''plain'' \<and> \<not> py_truthy (dict_get creds ''user'' JNull) then
        add_error (pfx @ ''.credentials: Missing '' @ quoted ''user''
                       @ '' for plain text source'') st
      else if user_source = JStr ''env_var''
              \<and> \<not> py_truthy (dict_get creds ''user_env'' JNull) then
        add_error (pfx @ ''.credentials: Missing '' @ quoted ''user_env''
                       @ '' for environment variable source'') st
      else if user_source \<in> aws_sources
              \<and> \<not> py_truthy (dict_get creds ''user_key'' JNull) then
        add_error (pfx @ ''.credentials: Missing '' @ quoted ''user_key''
                       @ '' for AWS source'') st
      else st)"

text \<open>\<^verbatim>\<open># Password validation\<close>: a plain password that is present is a warning.\<close>

definition password_validation :: "builtins \<Rightarrow> dict \<Rightarrow> string \<Rightarrow> vstate \<Rightarrow> vstate" where
  "password_validation B creds pfx st =
     (let password_source = dict_get creds ''password_source'' (JStr ''plain'');
          st = error_if (password_source \<notin> source_names)
                 (pfx @ ''.credentials: Invalid password_source ''
                      @ quoted (py_str B password_source)) st
      in
      if password_source = JStr ''plain'' then
        (if py_truthy (dict_get creds ''password'' JNull) then
           add_warning
             (pfx @ ''.credentials: Using plain text password is not recommended'') st
         else st)
      else if password_source = JStr ''env_var''
              \<and> \<not> py_truthy (dict_get creds ''password_env'' JNull) then
        add_error (pfx @ ''.credentials: Missing '' @ quoted ''password_env''
                       @ '' for environment variable source'') st
      else if password_source \<in> aws_sources
              \<and> \<not> py_truthy (dict_get creds ''password_key'' JNull) then
        add_error (pfx @ ''.credentials: Missing '' @ quoted ''password_key''
                       @ '' for AWS source'') st
      else st)"

text \<open>\<^verbatim>\<open># Validate AWS resource names\<close>: the key is matched only when it is truthy.\<close>

definition resource_name_validation ::
    "builtins \<Rightarrow> dict \<Rightarrow> string \<Rightarrow> vstate \<Rightarrow> exn + vstate" where
  "resource_name_validation B creds pfx st =
     (let password_source = dict_get creds ''password_source'' (JStr ''plain'');
          key = dict_get creds ''password_key'' (JStr '''')
      in
      if password_source = JStr ''aws_secrets_manager'' then
        (if py_truthy key then
           bind_exn (validate_aws_secret_name key) (\<lambda>ok.
           Inr (error_if (\<not> ok)
                  (pfx @ ''.credentials: Invalid secret name '' @ quoted (py_str B key)) st))
         else Inr st)
      else if password_source = JStr ''aws_ssm_parameter'' then
        (if py_truthy key then
           bind_exn (validate_ssm_parameter_name key) (\<lambda>ok.
           Inr (error_if (\<not> ok)
                  (pfx @ ''.credentials: Invalid SSM parameter name ''
                       @ quoted (py_str B key)) st))
         else Inr st)
      else Inr st)"

fun validate_credentials :: "builtins \<Rightarrow> jv \<Rightarrow> string \<Rightarrow> vstate \<Rightarrow> exn + vstate" where
  "validate_credentials B (JDict creds) pfx st =
     resource_name_validation B creds pfx
       (password_validation B creds pfx (username_validation B creds pfx st))"
| "validate_credentials B _ pfx st = Inl (Exn AttributeError ''object has no attribute get'')"

subsection \<open>\<^verbatim>\<open>_validate_monitoring\<close>\<close>

text \<open>\<^verbatim>\<open># Interval validation\<close>\<close>

definition interval_validation :: "builtins \<Rightarrow> dict \<Rightarrow> string \<Rightarrow> vstate \<Rightarrow> exn + vstate" where
  "interval_validation B monitoring pfx st =
     (let interval = dict_get monitoring ''interval'' JNull in
      if py_truthy interval then
        bind_exn (validate_interval interval) (\<lambda>ok.
        Inr (error_if (\<not> ok)
               (pfx @ ''.monitoring: Invalid interval '' @ quoted (py_str B interval)
                    @ '' - use format like '' @ quoted ''30s'' @ '', '' @ quoted ''5m''
                    @ '', '' @ quoted ''1h'') st))
      else Inr st)"

text \<open>
  \<^verbatim>\<open># Numeric validations\<close>: \<^verbatim>\<open>isinstance(value, (int, float))\<close> holds for integers,
  Booleans and floats. A comparison with NaN is false; an infinity is out of every
  range.
\<close>

fun number_of :: "jv \<Rightarrow> pyfloat option" where
  "number_of (JInt i) = Some (Fin (of_int i))"
| "number_of (JBool b) = Some (Fin (if b then 1 else 0))"
| "number_of (JFloat f) = Some f"
| "number_of _ = None"

fun out_of_range :: "pyfloat \<Rightarrow> rat \<Rightarrow> rat \<Rightarrow> bool" where
  "out_of_range (Fin q) lo hi = (q < lo \<or> q > hi)"
| "out_of_range PInf lo hi = True"
| "out_of_range NInf lo hi = True"
| "out_of_range NaN lo hi = False"

text \<open>One turn of the loop over \<^verbatim>\<open>numeric_fields\<close>; \<open>bounds\<close> is the text
  \<^verbatim>\<open>{min_val} and {max_val}\<close>.\<close>

definition numeric_field ::
    "dict \<Rightarrow> string \<Rightarrow> string \<Rightarrow> rat \<Rightarrow> rat \<Rightarrow> string \<Rightarrow> vstate \<Rightarrow> vstate" where
  "numeric_field monitoring pfx field lo hi bounds st =
     (let val = dict_get monitoring field JNull in
      if val \<noteq> JNull then
        (case number_of val of
           Some x \<Rightarrow>
             error_if (out_of_range x lo hi)
               (pfx @ ''.monitoring: '' @ field @ '' must be between '' @ bounds) st
         | None \<Rightarrow> add_error (pfx @ ''.monitoring: '' @ field @ '' must be a number'') st)
      else st)"

definition numeric_validations :: "dict \<Rightarrow> string \<Rightarrow> vstate \<Rightarrow> vstate" where
  "numeric_validations monitoring pfx st =
     numeric_field monitoring pfx ''query_timeout'' 1 3600 ''1 and 3600''
       (numeric_field monitoring pfx ''max_sample_rate'' 0 1 ''0.0 and 1.0''
          (numeric_field monitoring pfx ''max_sql_query_length'' 1 10000 ''1 and 10000'' st))"

fun validate_monitoring :: "builtins \<Rightarrow> jv \<Rightarrow> string \<Rightarrow> vstate \<Rightarrow> exn + vstate" where
  "validate_monitoring B (JDict monitoring) pfx st =
     bind_exn (interval_validation B monitoring pfx st) (\<lambda>st.
     Inr (numeric_validations monitoring pfx st))"
| "validate_monitoring B _ pfx st = Inl (Exn AttributeError ''object has no attribute get'')"

subsection \<open>\<^verbatim>\<open>_validate_database\<close>\<close>

text \<open>\<^verbatim>\<open># Required fields\<close>, the name.\<close>

definition name_validation :: "builtins \<Rightarrow> jv \<Rightarrow> string \<Rightarrow> vstate \<Rightarrow> exn + vstate" where
  "name_validation B db pfx st =
     bind_exn (py_contains db ''name'') (\<lambda>has.
     if \<not> has then
       Inr (add_error (pfx @ '': Missing required field '' @ quoted ''name'') st)
     else
       bind_exn (py_getitem db ''name'') (\<lambda>name.
       bind_exn (validate_name name) (\<lambda>ok.
       Inr (error_if (\<not> ok)
              (pfx @ '': Invalid name '' @ quoted (py_str B name)
                   @ '' - must contain only alphanumeric, dash, underscore'') st))))"

text \<open>\<^verbatim>\<open># Required fields\<close>, the type.\<close>

definition type_validation ::
    "builtins \<Rightarrow> jv \<Rightarrow> string \<Rightarrow> string \<Rightarrow> vstate \<Rightarrow> exn + vstate" where
  "type_validation B db db_type pfx st =
     bind_exn (py_contains db ''type'') (\<lambda>has.
     if \<not> has then
       Inr (add_error (pfx @ '': Missing required field '' @ quoted ''type'') st)
     else
       bind_exn (py_getitem db ''type'') (\<lambda>ty.
       Inr (error_if (ty \<noteq> JStr db_type)
              (pfx @ '': Type mismatch - expected '' @ quoted db_type @ '', got ''
                   @ quoted (py_str B ty)) st)))"

text \<open>A section that is falsy (absent, \<^verbatim>\<open>None\<close>, empty) is reported missing when it is
  required and skipped when it is not; a truthy one is validated.\<close>

definition connection_section :: "builtins \<Rightarrow> jv \<Rightarrow> string \<Rightarrow> vstate \<Rightarrow> exn + vstate" where
  "connection_section B db pfx st =
     bind_exn (py_get db ''connection'' (JDict [])) (\<lambda>conn.
     if \<not> py_truthy conn then
       Inr (add_error (pfx @ '': Missing '' @ quoted ''connection'' @ '' section'') st)
     else validate_connection B conn pfx st)"

definition credentials_section :: "builtins \<Rightarrow> jv \<Rightarrow> string \<Rightarrow> vstate \<Rightarrow> exn + vstate" where
  "credentials_section B db pfx st =
     bind_exn (py_get db ''credentials'' (JDict [])) (\<lambda>creds.
     if \<not> py_truthy creds then
       Inr (add_error (pfx @ '': Missing '' @ quoted ''credentials'' @ '' section'') st)
     else validate_credentials B creds pfx st)"

definition monitoring_section :: "builtins \<Rightarrow> jv \<Rightarrow> string \<Rightarrow> vstate \<Rightarrow> exn + vstate" where
  "monitoring_section B db pfx st =
     bind_exn (py_get db ''monitoring'' (JDict [])) (\<lambda>monitoring.
     if py_truthy monitoring then validate_monitoring B monitoring pfx st else Inr st)"

definition entry_prefix :: "string \<Rightarrow> nat \<Rightarrow> string" where
  "entry_prefix db_type index = db_type @ ''['' @ show_nat index @ '']''"

definition validate_database ::
    "builtins \<Rightarrow> jv \<Rightarrow> string \<Rightarrow> nat \<Rightarrow> vstate \<Rightarrow> exn + vstate" where
  "validate_database B db db_type index st =
     (let pfx = entry_prefix db_type index in
      bind_exn (name_validation B db pfx st) (\<lambda>st.
      bind_exn (type_validation B db db_type pfx st) (\<lambda>st.
      bind_exn (connection_section B db pfx st) (\<lambda>st.
      bind_exn (credentials_section B db pfx st) (\<lambda>st.
      monitoring_section B db pfx st)))))"

subsection \<open>\<^verbatim>\<open>_check_duplicate_names\<close> and \<^verbatim>\<open>validate_config\<close>\<close>

text \<open>\<^verbatim>\<open>for i, db in enumerate(dbs)\<close>: the loop from index \<open>i\<close> on.\<close>

fun validate_all ::
    "builtins \<Rightarrow> string \<Rightarrow> nat \<Rightarrow> jv list \<Rightarrow> vstate \<Rightarrow> exn + vstate" where
  "validate_all B db_type i [] st = Inr st"
| "validate_all B db_type i (db # dbs) st =
     bind_exn (validate_database B db db_type i st) (\<lambda>st.
     validate_all B db_type (Suc i) dbs st)"

text \<open>
  The names \<^verbatim>\<open>_check_duplicate_names\<close> collects. When it runs, the two loops of
  \<^verbatim>\<open>validate_config\<close> have applied \<^verbatim>\<open>re.match\<close> to every \<^verbatim>\<open>db['name']\<close>, which raises
  TypeError on a name that is not a string; the collection is therefore a list of
  strings, and the model raises the same TypeError on a name that is not one (a line
  that \<^verbatim>\<open>validate_config\<close> never reaches).
\<close>

fun all_names :: "jv list \<Rightarrow> exn + string list" where
  "all_names [] = Inr []"
| "all_names (db # dbs) =
     bind_exn (py_contains db ''name'') (\<lambda>has.
     if has then
       bind_exn (py_getitem db ''name'') (\<lambda>name.
       case name of
         JStr n \<Rightarrow> bind_exn (all_names dbs) (\<lambda>ns. Inr (n # ns))
       | _ \<Rightarrow> Inl (Exn TypeError ''expected string or bytes-like object''))
     else all_names dbs)"

definition duplicates :: "string list \<Rightarrow> string list" where
  "duplicates names = filter (\<lambda>name. count_list names name > 1) names"

definition check_duplicate_names :: "builtins \<Rightarrow> string list \<Rightarrow> vstate \<Rightarrow> vstate" where
  "check_duplicate_names B names st =
     (if duplicates names \<noteq> [] then
        add_error (''Duplicate service names found: ''
                     @ join '', '' (set_order B (duplicates names))) st
      else st)"

fun validate_config :: "builtins \<Rightarrow> jv \<Rightarrow> exn + bool \<times> string list \<times> string list" where
  "validate_config B (JDict config) =
     bind_exn (py_iter (dict_get config ''mysql_databases'' (JList []))) (\<lambda>mysql_dbs.
     bind_exn (validate_all B ''mysql'' 0 mysql_dbs \<lparr>errors = [], warnings = []\<rparr>) (\<lambda>st.
     bind_exn (py_iter (dict_get config ''postgresql_databases'' (JList []))) (\<lambda>postgres_dbs.
     bind_exn (validate_all B ''postgresql'' 0 postgres_dbs st) (\<lambda>st.
     bind_exn (all_names (mysql_dbs @ postgres_dbs)) (\<lambda>names.
     let st = check_duplicate_names B names st
     in Inr (errors st = [], errors st, warnings st))))))"
| "validate_config B _ = Inl (Exn AttributeError ''object has no attribute get'')"

text \<open>\<^verbatim>\<open>validate_yaml_config\<close>: a fresh validator each time.\<close>

definition validate_yaml_config ::
    "builtins \<Rightarrow> jv \<Rightarrow> exn + bool \<times> string list \<times> string list" where
  "validate_yaml_config B config = validate_config B config"

section \<open>The transform-and-write pipeline (transform-config.py, \<open>process_file\<close>)\<close>

text \<open>
  The files of the machine: a path has a text and permission bits. The parsers and
  the serialiser are the libraries'; a parser returns a tree or raises.
\<close>

record stored_file =
  content :: string
  mode :: nat

record codec =
  json_load :: "string \<Rightarrow> exn + jv"
  yaml_safe_load :: "string \<Rightarrow> exn + jv"
  yaml_dump :: "jv \<Rightarrow> string"
  create_mode :: nat

text \<open>What \<^verbatim>\<open>process_file\<close> changes: the resolver's effects, the standard output (one
  element for each \<^verbatim>\<open>print\<close>, with its line end) and the files.\<close>

record world =
  eff :: effects
  stdout :: "string list"
  files :: "string \<rightharpoonup> stored_file"

text \<open>\<^verbatim>\<open>stat.S_IRUSR | stat.S_IWUSR\<close>, octal 600.\<close>

definition owner_read_write :: nat where
  "owner_read_write = 384"

definition nl :: string where
  "nl = [CHR 0x0A]"

definition print_out :: "string \<Rightarrow> world \<Rightarrow> world" where
  "print_out s w = w\<lparr>stdout := stdout w @ [s @ nl]\<rparr>"

text \<open>\<^verbatim>\<open>for x in xs: print(f"{label}{x}")\<close>\<close>

definition print_each :: "string \<Rightarrow> string list \<Rightarrow> world \<Rightarrow> world" where
  "print_each label xs w = fold (\<lambda>x. print_out (label @ x)) xs w"

text \<open>\<^verbatim>\<open>open(path, 'r')\<close> and the parser chosen by the file name.\<close>

definition load_file :: "codec \<Rightarrow> (string \<rightharpoonup> stored_file) \<Rightarrow> string \<Rightarrow> exn + jv" where
  "load_file C fs path =
     (case fs path of
        None \<Rightarrow> Inl (Exn FileNotFoundError path)
      | Some f \<Rightarrow>
          if suffix ''.json'' path then json_load C (content f)
          else yaml_safe_load C (content f))"

text \<open>\<^verbatim>\<open>len(x)\<close>\<close>

fun py_len :: "jv \<Rightarrow> exn + nat" where
  "py_len (JList xs) = Inr (length xs)"
| "py_len (JStr s) = Inr (length s)"
| "py_len (JDict kvs) = Inr (length kvs)"
| "py_len _ = Inl (Exn TypeError ''object has no len'')"

text \<open>
  The report after the write: \<^verbatim>\<open>'ERROR' in db.get('password', '')\<close> for each flat
  entry, with a warning and a count for those where it holds. \<open>n\<close> is \<^verbatim>\<open>error_count\<close>.
\<close>

fun count_errors :: "builtins \<Rightarrow> jv list \<Rightarrow> nat \<Rightarrow> world \<Rightarrow> world \<times> (exn + nat)" where
  "count_errors B [] n w = (w, Inr n)"
| "count_errors B (db # dbs) n w =
     (case bind_exn (py_get db ''password'' (JStr ''''))
             (\<lambda>p. py_contains p ''ERROR'') of
        Inl e \<Rightarrow> (w, Inl e)
      | Inr False \<Rightarrow> count_errors B dbs n w
      | Inr True \<Rightarrow>
          (case py_get db ''service_name'' (JStr ''unknown'') of
             Inl e \<Rightarrow> (w, Inl e)
           | Inr name \<Rightarrow>
               count_errors B dbs (Suc n)
                 (print_out (nl @ ''WARNING: Failed to resolve credentials for database: ''
                               @ py_str B name) w)))"

text \<open>The part of \<^verbatim>\<open>process_file\<close> that follows a valid configuration: transform,
  write to a temporary file, restrict its permissions to the owner (\<^verbatim>\<open>0o600\<close>), rename
  it to the output path, and report.\<close>

definition write_output ::
    "builtins \<Rightarrow> env \<Rightarrow> codec \<Rightarrow> jv \<Rightarrow> string \<Rightarrow> world \<Rightarrow> world \<times> (exn + unit)" where
  "write_output B E C input_config output_file w =
     (let w = print_out ''Transforming configuration...'' w in
      case transform_config E input_config (eff w) of
        (e', Inl e) \<Rightarrow> (w\<lparr>eff := e'\<rparr>, Inl e)
      | (e', Inr output_config) \<Rightarrow>
          (let w = print_out (''Writing transformed configuration to '' @ output_file @ ''...'')
                     (w\<lparr>eff := e'\<rparr>);
               temp_file = output_file @ ''.tmp'';
               w = w\<lparr>files := (files w)(temp_file \<mapsto>
                      \<lparr>content = yaml_dump C output_config, mode = create_mode C\<rparr>)\<rparr>;
               w = w\<lparr>files := (files w)(temp_file \<mapsto>
                      \<lparr>content = yaml_dump C output_config, mode = owner_read_write\<rparr>)\<rparr>;
               w = w\<lparr>files := ((files w)(temp_file := None))(output_file \<mapsto>
                      \<lparr>content = yaml_dump C output_config, mode = owner_read_write\<rparr>)\<rparr>
           in
           case bind_exn (py_get output_config ''mysql_databases'' (JList [])) (\<lambda>ms.
                bind_exn (py_get output_config ''postgresql_databases'' (JList [])) (\<lambda>ps.
                bind_exn (py_len ms) (\<lambda>mysql_count.
                bind_exn (py_len ps) (\<lambda>postgres_count.
                bind_exn (py_iter ms) (\<lambda>m.
                bind_exn (py_iter ps) (\<lambda>p. Inr (mysql_count, postgres_count, m @ p))))))) of
             Inl e \<Rightarrow> (w, Inl e)
           | Inr (mysql_count, postgres_count, dbs) \<Rightarrow>
               (let w = print_out (nl @ ''Transformation complete:'') w;
                    w = print_out (''  MySQL databases: '' @ show_nat mysql_count) w;
                    w = print_out (''  PostgreSQL databases: '' @ show_nat postgres_count) w
                in
                case count_errors B dbs 0 w of
                  (w, Inl e) \<Rightarrow> (w, Inl e)
                | (w, Inr error_count) \<Rightarrow>
                    if error_count > 0 then
                      (print_out
                         ''Please check your AWS credentials and ensure the secrets/parameters exist.''
                         (print_out (nl @ ''Total credential resolution errors: ''
                                        @ show_nat error_count) w),
                       Inr ())
                    else (w, Inr ()))))"

text \<open>
  \<^verbatim>\<open>process_file\<close>: read, validate, and on an invalid configuration print the errors
  (and the warnings, if any) and raise \<^verbatim>\<open>ValueError("Invalid configuration")\<close>.
\<close>

definition process_file ::
    "builtins \<Rightarrow> env \<Rightarrow> codec \<Rightarrow> string \<Rightarrow> string \<Rightarrow> world \<Rightarrow> world \<times> (exn + unit)" where
  "process_file B E C input_file output_file w =
     (let w = print_out (''Reading configuration from '' @ input_file @ ''...'') w in
      case load_file C (files w) input_file of
        Inl e \<Rightarrow> (w, Inl e)
      | Inr input_config \<Rightarrow>
          (let w = print_out ''Validating configuration...'' w in
           case validate_yaml_config B input_config of
             Inl e \<Rightarrow> (w, Inl e)
           | Inr (valid, errs, warns) \<Rightarrow>
               if \<not> valid then
                 (let w = print_out (nl @ ''Configuration validation failed:'') w;
                      w = print_each ''  ERROR: '' errs w;
                      w = (if warns \<noteq> [] then
                             print_each ''  WARNING: '' warns
                               (print_out (nl @ ''Warnings:'') w)
                           else w)
                  in (w, Inl (Exn ValueError ''Invalid configuration'')))
               else
                 (let w = (if warns \<noteq> [] then
                             print_each ''  WARNING: '' warns
                               (print_out (nl @ ''Configuration warnings:'') w)
                           else w)
                  in write_output B E C input_config output_file w)))"

section \<open>Connection prober and credential validation (validate-credentials.py)\<close>

subsection \<open>The database drivers\<close>

text \<open>
  The arguments of \<^verbatim>\<open>connect\<close>, and what a server then does: every driver call
  returns or raises, \<^verbatim>\<open>fetchone\<close> gives a row or \<^verbatim>\<open>None\<close>, \<^verbatim>\<open>fetchall\<close> gives rows.
\<close>

datatype engine = MySQL | PostgreSQL

record conn_args =
  arg_host :: jv
  arg_port :: jv
  arg_user :: jv
  arg_password :: jv
  arg_database :: jv
  arg_ssl :: jv

record mysql_session =
  my_cursor :: "exn option"
  my_version_query :: "exn option"
  my_version_row :: "jv list option"
  my_grants_query :: "exn option"
  my_grants_rows :: "jv list list"
  my_perf_query :: "exn option"
  my_close :: "exn option"

record pg_session =
  pg_cursor :: "exn option"
  pg_version_query :: "exn option"
  pg_version_row :: "jv list option"
  pg_role_query :: "exn option"
  pg_role_row :: "jv list option"
  pg_table_query :: "exn option"
  pg_table_row :: "jv list option"
  pg_extension_query :: "exn option"
  pg_extension_row :: "jv list option"
  pg_close :: "exn option"

record drivers =
  mysql_connect :: "conn_args \<Rightarrow> exn + mysql_session"
  pg_connect :: "conn_args \<Rightarrow> exn + pg_session"

text \<open>The state of a \<^verbatim>\<open>CredentialValidator\<close> and of the outside: its two lists, the
  standard output, and the connections attempted (each call of \<^verbatim>\<open>connect\<close>).\<close>

record cstate =
  cv_errors :: "string list"
  cv_warnings :: "string list"
  cv_out :: "string list"
  cv_probes :: "(engine \<times> conn_args) list"

definition cv_print :: "string \<Rightarrow> cstate \<Rightarrow> cstate" where
  "cv_print s st = st\<lparr>cv_out := cv_out st @ [s @ nl]\<rparr>"

text \<open>\<^verbatim>\<open>print(s, end=' ')\<close>\<close>

definition cv_print_sp :: "string \<Rightarrow> cstate \<Rightarrow> cstate" where
  "cv_print_sp s st = st\<lparr>cv_out := cv_out st @ [s @ '' '']\<rparr>"

text \<open>The check mark and the cross of the report, in UTF-8.\<close>

definition check_mark :: string where
  "check_mark = [CHR 0xE2, CHR 0x9C, CHR 0x93]"

definition cross_mark :: string where
  "cross_mark = [CHR 0xE2, CHR 0x9C, CHR 0x97]"

text \<open>A driver call that may raise.\<close>

definition raising :: "exn option \<Rightarrow> exn + unit" where
  "raising r = (case r of None \<Rightarrow> Inr () | Some e \<Rightarrow> Inl e)"

text \<open>\<^verbatim>\<open>row[0]\<close> on a row, and \<^verbatim>\<open>cursor.fetchone()[0]\<close>.\<close>

definition row0 :: "jv list \<Rightarrow> exn + jv" where
  "row0 row = (case row of [] \<Rightarrow> Inl (Exn IndexError ''tuple index out of range'')
               | x # _ \<Rightarrow> Inr x)"

definition fetchone0 :: "jv list option \<Rightarrow> exn + jv" where
  "fetchone0 r = (case r of None \<Rightarrow> Inl (Exn TypeError ''NoneType object is not subscriptable'')
                  | Some row \<Rightarrow> row0 row)"

text \<open>\<^verbatim>\<open>[row[0] for row in rows]\<close>\<close>

fun rows0 :: "jv list list \<Rightarrow> exn + jv list" where
  "rows0 [] = Inr []"
| "rows0 (row # rows) =
     bind_exn (row0 row) (\<lambda>x. bind_exn (rows0 rows) (\<lambda>xs. Inr (x # xs)))"

text \<open>\<^verbatim>\<open>' '.join(xs)\<close> needs strings.\<close>

fun strings_of :: "jv list \<Rightarrow> exn + string list" where
  "strings_of [] = Inr []"
| "strings_of (JStr s # xs) = bind_exn (strings_of xs) (\<lambda>ss. Inr (s # ss))"
| "strings_of (_ # xs) = Inl (Exn TypeError ''sequence item: expected str instance'')"

subsection \<open>\<^verbatim>\<open>test_mysql_connection\<close>\<close>

definition required_permissions :: "string list" where
  "required_permissions = [''SELECT'', ''PROCESS'', ''REPLICATION CLIENT'']"

text \<open>The \<^verbatim>\<open>except\<close> clauses: a fixed message for each class of exception.\<close>

fun mysql_failure :: "exn_class \<Rightarrow> string" where
  "mysql_failure OperationalError = ''Connection failed: Unable to connect to MySQL database''"
| "mysql_failure ProgrammingError = ''Permission error: Insufficient database privileges''"
| "mysql_failure _ = ''Connection failed: Database connection error''"

fun mysql_handler :: "exn \<Rightarrow> bool \<times> string" where
  "mysql_handler (Exn c t) = (False, mysql_failure c)"

text \<open>The SSL configuration and the arguments of \<^verbatim>\<open>pymysql.connect\<close>, evaluated in
  order; \<open>ssl_on\<close> stands for \<^verbatim>\<open>{'ssl': {'ssl_disabled': False}}\<close>.\<close>

definition ssl_on :: jv where
  "ssl_on = JDict [(''ssl'', JDict [(''ssl_disabled'', JBool False)])]"

definition mysql_args :: "jv \<Rightarrow> exn + conn_args" where
  "mysql_args db =
     bind_exn (or_else (py_get db ''ssl'' (JBool False)) (py_get db ''tls'' (JBool False)))
       (\<lambda>ssl.
     bind_exn (py_getitem db ''host'') (\<lambda>host.
     bind_exn (py_get db ''port'' (JInt 3306)) (\<lambda>port.
     bind_exn (py_getitem db ''user'') (\<lambda>user.
     bind_exn (py_getitem db ''password'') (\<lambda>password.
     bind_exn (py_get db ''database'' (JStr ''information_schema'')) (\<lambda>database.
     Inr \<lparr>arg_host = host, arg_port = port, arg_user = user, arg_password = password,
          arg_database = database,
          arg_ssl = (if py_truthy ssl then ssl_on else JNull)\<rparr>))))))"

text \<open>The \<^verbatim>\<open>with connection.cursor()\<close> block, \<^verbatim>\<open>connection.close()\<close> and the return.\<close>

definition mysql_session_result :: "builtins \<Rightarrow> mysql_session \<Rightarrow> exn + bool \<times> string" where
  "mysql_session_result B s =
     bind_exn (raising (my_cursor s)) (\<lambda>_.
     bind_exn (raising (my_version_query s)) (\<lambda>_.
     bind_exn (fetchone0 (my_version_row s)) (\<lambda>version.
     bind_exn (raising (my_grants_query s)) (\<lambda>_.
     bind_exn (rows0 (my_grants_rows s)) (\<lambda>cells.
     bind_exn (strings_of cells) (\<lambda>grants.
     let grants_str = str_upper B (join '' '' grants);
         missing_permissions =
           filter (\<lambda>perm. \<not> is_substring perm grants_str) required_permissions
     in
     if missing_permissions \<noteq> [] then
       Inr (False, ''Missing permissions: '' @ join '', '' missing_permissions)
     else
       bind_exn (raising (my_perf_query s)) (\<lambda>_.
       bind_exn (raising (my_close s)) (\<lambda>_.
       Inr (True, ''Connected successfully (MySQL '' @ py_str B version @ '')'')))))))))"

text \<open>The body of the \<^verbatim>\<open>try\<close>, with the connection it attempts, if it gets that far.\<close>

definition mysql_try ::
    "drivers \<Rightarrow> builtins \<Rightarrow> jv \<Rightarrow> conn_args option \<times> (exn + bool \<times> string)" where
  "mysql_try D B db =
     (case mysql_args db of
        Inl e \<Rightarrow> (None, Inl e)
      | Inr args \<Rightarrow>
          (Some args,
           bind_exn (mysql_connect D args) (\<lambda>s. mysql_session_result B s)))"

definition attempt :: "engine \<Rightarrow> conn_args option \<Rightarrow> cstate \<Rightarrow> cstate" where
  "attempt en a st =
     (case a of None \<Rightarrow> st | Some args \<Rightarrow> st\<lparr>cv_probes := cv_probes st @ [(en, args)]\<rparr>)"

definition test_mysql_connection ::
    "drivers \<Rightarrow> builtins \<Rightarrow> jv \<Rightarrow> cstate \<Rightarrow> cstate \<times> bool \<times> string" where
  "test_mysql_connection D B db st =
     (case mysql_try D B db of
        (a, Inl e) \<Rightarrow> (attempt MySQL a st, mysql_handler e)
      | (a, Inr r) \<Rightarrow> (attempt MySQL a st, r))"

subsection \<open>\<^verbatim>\<open>test_postgresql_connection\<close>\<close>

fun pg_failure :: "exn_class \<Rightarrow> string" where
  "pg_failure OperationalError =
     ''Connection failed: Unable to connect to PostgreSQL database''"
| "pg_failure ProgrammingError = ''Permission error: Insufficient database privileges''"
| "pg_failure _ = ''Connection failed: Database connection error''"

fun pg_handler :: "exn \<Rightarrow> bool \<times> string" where
  "pg_handler (Exn c t) = (False, pg_failure c)"

definition pg_args :: "jv \<Rightarrow> exn + conn_args" where
  "pg_args db =
     bind_exn (py_getitem db ''host'') (\<lambda>host.
     bind_exn (py_get db ''port'' (JInt 5432)) (\<lambda>port.
     bind_exn (py_getitem db ''user'') (\<lambda>user.
     bind_exn (py_getitem db ''password'') (\<lambda>password.
     bind_exn (py_get db ''database'' (JStr ''postgres'')) (\<lambda>database.
     bind_exn (py_get db ''sslmode'' (JStr ''require'')) (\<lambda>sslmode.
     Inr \<lparr>arg_host = host, arg_port = port, arg_user = user, arg_password = password,
          arg_database = database, arg_ssl = sslmode\<rparr>))))))"

text \<open>\<^verbatim>\<open>x > 0\<close>: TypeError when \<open>x\<close> is not a number.\<close>

definition positive :: "jv \<Rightarrow> exn + bool" where
  "positive x =
     (case number_of x of
        None \<Rightarrow> Inl (Exn TypeError ''> not supported'')
      | Some (Fin q) \<Rightarrow> Inr (0 < q)
      | Some PInf \<Rightarrow> Inr True
      | Some _ \<Rightarrow> Inr False)"

text \<open>The role check: the monitoring role, or else the privilege on the statistics
  view. \<open>True\<close> when the permissions suffice.\<close>

definition pg_role_check :: "pg_session \<Rightarrow> exn + bool" where
  "pg_role_check s =
     bind_exn (raising (pg_role_query s)) (\<lambda>_.
     bind_exn (fetchone0 (pg_role_row s)) (\<lambda>has_monitor_role.
     if \<not> py_truthy has_monitor_role then
       bind_exn (raising (pg_table_query s)) (\<lambda>_.
       bind_exn (fetchone0 (pg_table_row s)) (\<lambda>has_basic_perms.
       Inr (py_truthy has_basic_perms)))
     else Inr True))"

text \<open>\<^verbatim>\<open>name = db.get('service_name', db['host'])\<close>: the default is evaluated, so an
  entry without \<^verbatim>\<open>host\<close> raises KeyError even when it has a service name.\<close>

fun entry_name :: "jv \<Rightarrow> exn + jv" where
  "entry_name (JDict db) =
     (case map_of db ''host'' of
        None \<Rightarrow> Inl (Exn KeyError ''host'')
      | Some host \<Rightarrow> Inr (dict_get db ''service_name'' host))"
| "entry_name _ = Inl (Exn AttributeError ''object has no attribute get'')"

text \<open>The \<^verbatim>\<open>with\<close> block, the close and the return; a warning appended before a later
  call raises stays appended.\<close>

definition pg_session_result ::
    "builtins \<Rightarrow> jv \<Rightarrow> pg_session \<Rightarrow> cstate \<Rightarrow> cstate \<times> (exn + bool \<times> string)" where
  "pg_session_result B db s st =
     (case bind_exn (raising (pg_cursor s)) (\<lambda>_.
           bind_exn (raising (pg_version_query s)) (\<lambda>_.
           bind_exn (fetchone0 (pg_version_row s)) (\<lambda>version.
           pg_role_check s))) of
        Inl e \<Rightarrow> (st, Inl e)
      | Inr False \<Rightarrow> (st, Inr (False, ''Missing pg_monitor role or equivalent permissions''))
      | Inr True \<Rightarrow>
          (case bind_exn (raising (pg_extension_query s)) (\<lambda>_.
                bind_exn (fetchone0 (pg_extension_row s)) (\<lambda>n.
                bind_exn (positive n) (\<lambda>has_pg_stat_statements.
                if \<not> has_pg_stat_statements then
                  bind_exn (entry_name db) (\<lambda>name. Inr (Some name))
                else Inr None))) of
             Inl e \<Rightarrow> (st, Inl e)
           | Inr unmonitored \<Rightarrow>
               (let st = (case unmonitored of
                            Some name \<Rightarrow>
                              st\<lparr>cv_warnings := cv_warnings st @
                                [py_str B name
                                   @ '': pg_stat_statements extension not installed ''
                                   @ ''(query monitoring limited)'']\<rparr>
                          | None \<Rightarrow> st)
                in case raising (pg_close s) of
                     Inl e \<Rightarrow> (st, Inl e)
                   | Inr _ \<Rightarrow> (st, Inr (True, ''Connected successfully (PostgreSQL)'')))))"

definition test_postgresql_connection ::
    "drivers \<Rightarrow> builtins \<Rightarrow> jv \<Rightarrow> cstate \<Rightarrow> cstate \<times> bool \<times> string" where
  "test_postgresql_connection D B db st =
     (case pg_args db of
        Inl e \<Rightarrow> (st, pg_handler e)
      | Inr args \<Rightarrow>
          (let st = attempt PostgreSQL (Some args) st in
           case pg_connect D args of
             Inl e \<Rightarrow> (st, pg_handler e)
           | Inr s \<Rightarrow>
               (case pg_session_result B db s st of
                  (st, Inl e) \<Rightarrow> (st, pg_handler e)
                | (st, Inr r) \<Rightarrow> (st, r))))"

subsection \<open>\<^verbatim>\<open>validate_credentials\<close>\<close>

text \<open>\<^verbatim>\<open>'ERROR' in db.get('password', '')\<close>\<close>

definition credential_error :: "jv \<Rightarrow> exn + bool" where
  "credential_error db =
     bind_exn (py_get db ''password'' (JStr [])) (\<lambda>p. py_contains p ''ERROR'')"

text \<open>
  One turn of the loop over an engine's entries. \<open>probe\<close> is the engine's connection
  test, and the Boolean is \<^verbatim>\<open>all_valid\<close>.
\<close>

definition check_entry ::
    "builtins \<Rightarrow> (jv \<Rightarrow> cstate \<Rightarrow> cstate \<times> bool \<times> string) \<Rightarrow> jv \<Rightarrow> cstate \<times> bool
       \<Rightarrow> cstate \<times> (exn + bool)" where
  "check_entry B probe db sv =
     (case sv of (st, all_valid) \<Rightarrow>
      case entry_name db of
        Inl e \<Rightarrow> (st, Inl e)
      | Inr n \<Rightarrow>
          (let name = py_str B n;
               st = cv_print_sp (''  Checking '' @ name @ ''...'') st
           in case credential_error db of
                Inl e \<Rightarrow> (st, Inl e)
              | Inr True \<Rightarrow>
                  (let st = cv_print (cross_mark @ '' Failed to resolve credentials'') st;
                       st = st\<lparr>cv_errors := cv_errors st
                                @ [name @ '': Credential resolution failed'']\<rparr>
                   in (st, Inr False))
              | Inr False \<Rightarrow>
                  (case probe db st of
                     (st, success, message) \<Rightarrow>
                       if success then
                         (cv_print (check_mark @ '' '' @ message) st, Inr all_valid)
                       else
                         (let st = cv_print (cross_mark @ '' '' @ message) st;
                              st = st\<lparr>cv_errors := cv_errors st @ [name @ '': '' @ message]\<rparr>
                          in (st, Inr False)))))"

fun check_entries ::
    "builtins \<Rightarrow> (jv \<Rightarrow> cstate \<Rightarrow> cstate \<times> bool \<times> string) \<Rightarrow> jv list \<Rightarrow> cstate \<times> bool
       \<Rightarrow> cstate \<times> (exn + bool)" where
  "check_entries B probe [] sv = (fst sv, Inr (snd sv))"
| "check_entries B probe (db # dbs) sv =
     (case check_entry B probe db sv of
        (st, Inl e) \<Rightarrow> (st, Inl e)
      | (st, Inr all_valid) \<Rightarrow> check_entries B probe dbs (st, all_valid))"

text \<open>The block of one engine: skipped when the list is falsy.\<close>

definition check_engine ::
    "builtins \<Rightarrow> (jv \<Rightarrow> cstate \<Rightarrow> cstate \<times> bool \<times> string) \<Rightarrow> string \<Rightarrow> jv \<Rightarrow> cstate \<times> bool
       \<Rightarrow> cstate \<times> (exn + bool)" where
  "check_engine B probe label dbs sv =
     (if py_truthy dbs then
        (case bind_exn (py_len dbs) (\<lambda>n. bind_exn (py_iter dbs) (\<lambda>xs. Inr (n, xs))) of
           Inl e \<Rightarrow> (fst sv, Inl e)
         | Inr (n, xs) \<Rightarrow>
             check_entries B probe xs
               (cv_print (nl @ ''Validating '' @ show_nat n @ '' '' @ label @ '' database(s)...'')
                  (fst sv), snd sv))
      else (fst sv, Inr (snd sv)))"

text \<open>\<^verbatim>\<open>validate_credentials\<close>, after \<^verbatim>\<open>load_config\<close> has returned \<open>config\<close>.\<close>

fun validate_loaded ::
    "drivers \<Rightarrow> builtins \<Rightarrow> jv \<Rightarrow> cstate \<Rightarrow> cstate \<times> (exn + bool)" where
  "validate_loaded D B (JDict config) st =
     (let nr_key = dict_get config ''newrelic_license_key'' (JStr []);
          sv = (if \<not> py_truthy nr_key \<or> nr_key = JStr ''YOUR_LICENSE_KEY'' then
                  (st\<lparr>cv_errors := cv_errors st @ [''New Relic license key not configured'']\<rparr>,
                   False)
                else (cv_print (check_mark @ '' New Relic license key configured'') st, True))
      in
      case check_engine B (test_mysql_connection D B) ''MySQL''
             (dict_get config ''mysql_databases'' (JList [])) sv of
        (st, Inl e) \<Rightarrow> (st, Inl e)
      | (st, Inr all_valid) \<Rightarrow>
          check_engine B (test_postgresql_connection D B) ''PostgreSQL''
            (dict_get config ''postgresql_databases'' (JList [])) (st, all_valid))"
| "validate_loaded D B _ st = (st, Inl (Exn AttributeError ''object has no attribute get''))"

text \<open>\<^verbatim>\<open>validate_credentials\<close>: a configuration that does not load is reported, and the
  result is \<^verbatim>\<open>False\<close>.\<close>

definition validate_credentials_run ::
    "drivers \<Rightarrow> builtins \<Rightarrow> codec \<Rightarrow> (string \<rightharpoonup> stored_file) \<Rightarrow> string \<Rightarrow> cstate
       \<Rightarrow> cstate \<times> (exn + bool)" where
  "validate_credentials_run D B C fs config_file st =
     (let st = cv_print ''Loading configuration...'' st in
      case load_file C fs config_file of
        Inl (Exn c t) \<Rightarrow>
          (cv_print (''ERROR: Failed to load configuration: '' @ t) st, Inr False)
      | Inr config \<Rightarrow> validate_loaded D B config st)"

section \<open>Notions the properties of the validator are stated with\<close>

text \<open>\<open>extends P st st'\<close>: \<open>st'\<close> has the errors of \<open>st\<close> and then new ones, all with \<open>P\<close>.\<close>

definition extends :: "(string \<Rightarrow> bool) \<Rightarrow> vstate \<Rightarrow> vstate \<Rightarrow> bool" where
  "extends P st st' = (\<exists>new. errors st' = errors st @ new \<and> list_all P new)"

text \<open>The duplicate-name error is the message that \<^verbatim>\<open>_check_duplicate_names\<close> builds: it
  begins with this text.\<close>

definition is_duplicate_error :: "string \<Rightarrow> bool" where
  "is_duplicate_error e = prefix ''Duplicate service names found: '' e"

text \<open>Upper case on ASCII letters.\<close>

definition ascii_upper :: "char \<Rightarrow> char" where
  "ascii_upper c =
     (case map_of (zip ''abcdefghijklmnopqrstuvwxyz'' ''ABCDEFGHIJKLMNOPQRSTUVWXYZ'') c of
        Some u \<Rightarrow> u
      | None \<Rightarrow> c)"

text \<open>Built-ins for the concrete inputs, where no host is an IP address and no float,
  list or dictionary is formatted; a set is iterated in the order of first occurrence.\<close>

definition sample_builtins :: builtins where
  "sample_builtins =
     \<lparr>str_other = (\<lambda>v. ''?''), ip_address_ok = (\<lambda>v. False), set_order = remdups,
      str_upper = map ascii_upper\<rparr>"

text \<open>The configuration of the specification's scenario, and the same entry twice.\<close>

definition scenario_config :: dict where
  "scenario_config = [(''mysql_databases'', JList [JDict scenario_entry])]"

definition duplicate_config :: dict where
  "duplicate_config =
     [(''mysql_databases'', JList [JDict scenario_entry, JDict scenario_entry])]"

definition plain_password_warning :: "nat \<Rightarrow> string" where
  "plain_password_warning i =
     entry_prefix ''mysql'' i @ ''.credentials: Using plain text password is not recommended''"

section \<open>Concrete inputs of the pipeline\<close>

text \<open>A machine whose input file parses to the configuration with the duplicate
  name.\<close>

definition sample_codec :: codec where
  "sample_codec =
     \<lparr>json_load = (\<lambda>s. Inr (JDict duplicate_config)),
      yaml_safe_load = (\<lambda>s. Inr (JDict duplicate_config)),
      yaml_dump = (\<lambda>v. []), create_mode = 420\<rparr>"

definition sample_world :: world where
  "sample_world =
     \<lparr>eff = no_effects, stdout = [],
      files = [''in.json'' \<mapsto> \<lparr>content = ''{}'', mode = 420\<rparr>]\<rparr>"

section \<open>Notions the properties of the prober and of the credential validation are
  stated with\<close>

text \<open>
  \<open>mysql_driver_raises D B db e\<close>: while \<^verbatim>\<open>test_mysql_connection\<close> probes the entry
  \<open>db\<close>, a call of the driver raises \<open>e\<close>: the connection, the cursor, one of the three
  queries, or the close, each reached when the calls before it have returned.
\<close>

inductive mysql_driver_raises :: "drivers \<Rightarrow> builtins \<Rightarrow> jv \<Rightarrow> exn \<Rightarrow> bool"
  for D B db where
  at_connect:
    "mysql_args db = Inr args \<Longrightarrow> mysql_connect D args = Inl e \<Longrightarrow>
     mysql_driver_raises D B db e"
| at_cursor:
    "mysql_args db = Inr args \<Longrightarrow> mysql_connect D args = Inr s \<Longrightarrow>
     my_cursor s = Some e \<Longrightarrow> mysql_driver_raises D B db e"
| at_version:
    "mysql_args db = Inr args \<Longrightarrow> mysql_connect D args = Inr s \<Longrightarrow>
     my_cursor s = None \<Longrightarrow> my_version_query s = Some e \<Longrightarrow>
     mysql_driver_raises D B db e"
| at_grants:
    "mysql_args db = Inr args \<Longrightarrow> mysql_connect D args = Inr s \<Longrightarrow>
     my_cursor s = None \<Longrightarrow> my_version_query s = None \<Longrightarrow>
     fetchone0 (my_version_row s) = Inr v \<Longrightarrow> my_grants_query s = Some e \<Longrightarrow>
     mysql_driver_raises D B db e"
| at_perf:
    "mysql_args db = Inr args \<Longrightarrow> mysql_connect D args = Inr s \<Longrightarrow>
     my_cursor s = None \<Longrightarrow> my_version_query s = None \<Longrightarrow>
     fetchone0 (my_version_row s) = Inr v \<Longrightarrow> my_grants_query s = None \<Longrightarrow>
     rows0 (my_grants_rows s) = Inr cells \<Longrightarrow> strings_of cells = Inr grants \<Longrightarrow>
     filter (\<lambda>perm. \<not> is_substring perm (str_upper B (join '' '' grants)))
       required_permissions = [] \<Longrightarrow>
     my_perf_query s = Some e \<Longrightarrow> mysql_driver_raises D B db e"
| at_close:
    "mysql_args db = Inr args \<Longrightarrow> mysql_connect D args = Inr s \<Longrightarrow>
     my_cursor s = None \<Longrightarrow> my_version_query s = None \<Longrightarrow>
     fetchone0 (my_version_row s) = Inr v \<Longrightarrow> my_grants_query s = None \<Longrightarrow>
     rows0 (my_grants_rows s) = Inr cells \<Longrightarrow> strings_of cells = Inr grants \<Longrightarrow>
     filter (\<lambda>perm. \<not> is_substring perm (str_upper B (join '' '' grants)))
       required_permissions = [] \<Longrightarrow>
     my_perf_query s = None \<Longrightarrow> my_close s = Some e \<Longrightarrow> mysql_driver_raises D B db e"

text \<open>The three messages of the \<^verbatim>\<open>except\<close> clauses.\<close>

definition generic_messages :: "string set" where
  "generic_messages =
     {''Connection failed: Unable to connect to MySQL database'',
      ''Permission error: Insufficient database privileges'',
      ''Connection failed: Database connection error''}"

text \<open>An attempted connection is clean when the guard of \<^verbatim>\<open>validate_credentials\<close>,
  \<^verbatim>\<open>'ERROR' in password\<close>, does not hold of its password.\<close>

definition clean_attempt :: "engine \<times> conn_args \<Rightarrow> bool" where
  "clean_attempt a = (py_contains (arg_password (snd a)) ''ERROR'' \<noteq> Inr True)"

text \<open>The entries that the loop of \<^verbatim>\<open>validate_credentials\<close> visits for a key of the
  configuration: none when the value is falsy.\<close>

definition listed :: "dict \<Rightarrow> string \<Rightarrow> jv list" where
  "listed cfg key =
     (let v = dict_get cfg key (JList []) in
      if py_truthy v then (case py_iter v of Inr xs \<Rightarrow> xs | Inl e \<Rightarrow> []) else [])"

text \<open>What a connection test may do to the state: no error recorded, and at most one
  attempt, made with the entry's own password.\<close>

definition probe_ok :: "(jv \<Rightarrow> cstate \<Rightarrow> cstate \<times> bool \<times> string) \<Rightarrow> bool" where
  "probe_ok probe =
     (\<forall>db st. cv_errors (fst (probe db st)) = cv_errors st
        \<and> (cv_probes (fst (probe db st)) = cv_probes st
            \<or> (\<exists>a. cv_probes (fst (probe db st)) = cv_probes st @ [a]
                    \<and> py_getitem db ''password'' = Inr (arg_password (snd a)))))"

section \<open>A flat configuration of one MySQL entry, and drivers to probe it with\<close>

text \<open>
  The state of a run that has printed and probed nothing; a flat entry as the transformer
  writes it, with a given password; the arguments \<^verbatim>\<open>test_mysql_connection\<close> builds from it;
  a MySQL server that answers every query and shows one line of grants; a server that
  refuses every connection; and the flat configuration holding the one entry.
\<close>

definition fresh :: cstate where
  "fresh = \<lparr>cv_errors = [], cv_warnings = [], cv_out = [], cv_probes = []\<rparr>"

definition flat_entry_with :: "string \<Rightarrow> dict" where
  "flat_entry_with pw =
     [(''host'', JStr ''h''), (''port'', JInt 3306), (''user'', JStr ''newrelic''),
      (''password'', JStr pw), (''service_name'', JStr ''db1'')]"

definition args_with :: "string \<Rightarrow> conn_args" where
  "args_with pw =
     \<lparr>arg_host = JStr ''h'', arg_port = JInt 3306, arg_user = JStr ''newrelic'',
      arg_password = JStr pw, arg_database = JStr ''information_schema'', arg_ssl = JNull\<rparr>"

definition session_granting :: "string \<Rightarrow> mysql_session" where
  "session_granting grants =
     \<lparr>my_cursor = None, my_version_query = None, my_version_row = Some [JStr ''8.0.36''],
      my_grants_query = None, my_grants_rows = [[JStr grants]],
      my_perf_query = None, my_close = None\<rparr>"

definition refusal :: exn where
  "refusal = Exn OperationalError ''Access denied for user newrelic''"

definition drivers_granting :: "string \<Rightarrow> drivers" where
  "drivers_granting grants =
     \<lparr>mysql_connect = (\<lambda>a. Inr (session_granting grants)),
      pg_connect = (\<lambda>a. Inl refusal)\<rparr>"

definition refusing_drivers :: drivers where
  "refusing_drivers = \<lparr>mysql_connect = (\<lambda>a. Inl refusal), pg_connect = (\<lambda>a. Inl refusal)\<rparr>"

definition flat_config_with :: "string \<Rightarrow> dict" where
  "flat_config_with pw =
     [(''newrelic_license_key'', JStr ''license''),
      (''mysql_databases'', JList [JDict (flat_entry_with pw)])]"

section \<open>Properties of the credential resolver\<close>

text \<open>
  C10. Credentials whose \<^verbatim>\<open>password_source\<close> is absent, or is anything but one of
  \<^verbatim>\<open>aws_secrets_manager\<close>, \<^verbatim>\<open>aws_ssm_parameter\<close> and \<^verbatim>\<open>env_var\<close> (an invalid source name
  too), fall through to the plain-text branch: the result is the literal \<^verbatim>\<open>password\<close>
  field when the mapping has one and the sentinel \<^verbatim>\<open>MISSING_PASSWORD\<close> when it has
  none, and the effects are unchanged: no call to a store, nothing printed.
\<close>

theorem plain_branch_fallthrough:
  assumes "map_of c ''password_source'' \<noteq> Some (JStr ''aws_secrets_manager'')"
      and "map_of c ''password_source'' \<noteq> Some (JStr ''aws_ssm_parameter'')"
      and "map_of c ''password_source'' \<noteq> Some (JStr ''env_var'')"
  shows "resolve_credentials E (JDict c) w =
           (w, Inr \<lparr>user = dict_get c ''username'' (JStr ''newrelic''),
                    password = (case map_of c ''password'' of
                                  Some v \<Rightarrow> v
                                | None \<Rightarrow> JStr ''MISSING_PASSWORD'')\<rparr>)"
  using assms by (auto simp: dict_get_def split: option.splits)

text \<open>An invalid source name with and without a password, and an absent source.\<close>

theorem plain_branch_fallthrough_witness:
  "resolve_credentials unreachable_stores
     (JDict [(''password_source'', JStr ''vault''), (''password'', JStr ''p'')]) no_effects =
     (no_effects, Inr \<lparr>user = JStr ''newrelic'', password = JStr ''p''\<rparr>)
   \<and> resolve_credentials unreachable_stores
        (JDict [(''password_source'', JStr ''vault'')]) no_effects =
     (no_effects, Inr \<lparr>user = JStr ''newrelic'', password = JStr ''MISSING_PASSWORD''\<rparr>)
   \<and> resolve_credentials unreachable_stores (JDict scenario_credentials) no_effects =
     (no_effects, Inr \<lparr>user = JStr ''newrelic'', password = JStr ''p''\<rparr>)"
  using plain_branch_fallthrough
          [of "[(''password_source'', JStr ''vault''), (''password'', JStr ''p'')]"
              unreachable_stores no_effects]
        plain_branch_fallthrough
          [of "[(''password_source'', JStr ''vault'')]" unreachable_stores no_effects]
        plain_branch_fallthrough [of scenario_credentials unreachable_stores no_effects]
  by (simp add: scenario_credentials_def dict_get_def)

text \<open>
  C1. Credentials with \<^verbatim>\<open>password_source = aws_secrets_manager\<close> and a non-empty
  \<^verbatim>\<open>password_key\<close>, in a world where the fetch of that key raises an exception \<open>e\<close>
  (in the call or in the read of \<^verbatim>\<open>SecretString\<close>): resolution returns normally, the
  password is exactly \<^verbatim>\<open>ERROR_FETCHING_SECRET\<close>, one fetch was made, and the one line
  printed on the diagnostic stream is a fixed text, the same for every key and every
  exception: neither of them is put into it.
\<close>

theorem secret_fetch_failure_sentinel:
  assumes "map_of c ''password_source'' = Some (JStr ''aws_secrets_manager'')"
      and "map_of c ''password_key'' = Some key" and "py_truthy key"
      and "secret_string E key = Inl e"
  shows "resolve_credentials E (JDict c) w =
           (w\<lparr>stderr := stderr w @ [''Error fetching secret: Failed to retrieve credentials''],
              fetches := fetches w @ [(SecretsManager, key)]\<rparr>,
            Inr \<lparr>user = dict_get c ''username'' (JStr ''newrelic''),
                 password = JStr ''ERROR_FETCHING_SECRET''\<rparr>)"
  using assms by (simp add: dict_get_def fetch_secret_def print_err_def)

theorem secret_fetch_failure_sentinel_witness:
  "resolve_credentials unreachable_stores (JDict missing_secret_credentials) no_effects =
     (\<lparr>stderr = [''Error fetching secret: Failed to retrieve credentials''],
       fetches = [(SecretsManager, JStr ''/nonexistent/secret'')]\<rparr>,
      Inr \<lparr>user = JStr ''newrelic'', password = JStr ''ERROR_FETCHING_SECRET''\<rparr>)"
  using secret_fetch_failure_sentinel
    [of missing_secret_credentials "JStr ''/nonexistent/secret''" unreachable_stores
        "Exn OtherError ''ResourceNotFoundException''" no_effects]
  by (simp add: missing_secret_credentials_def unreachable_stores_def no_effects_def
        secret_string_def dict_get_def)

text \<open>The value the resolver returns does not depend on the effects made before.\<close>

lemma fetch_secret_result: "snd (fetch_secret E k w) = snd (fetch_secret E k w')"
  by (simp add: fetch_secret_def Let_def split: sum.splits)

lemma fetch_ssm_parameter_result:
  "snd (fetch_ssm_parameter E k w) = snd (fetch_ssm_parameter E k w')"
  by (simp add: fetch_ssm_parameter_def Let_def split: sum.splits)

lemma resolve_credentials_result:
  "snd (resolve_credentials E x w) = snd (resolve_credentials E x w')"
proof (cases x)
  case (JDict c)
  show ?thesis
    using fetch_secret_result [of E "dict_get c ''password_key'' JNull" w w']
          fetch_ssm_parameter_result [of E "dict_get c ''password_key'' JNull" w w']
    unfolding JDict
    by (auto simp: Let_def split: prod.splits sum.splits)
qed simp_all

lemma resolve_credentials_user:
  assumes "resolve_credentials E x w = (w', Inr r)"
  shows "\<exists>c. x = JDict c \<and> user r = dict_get c ''username'' (JStr ''newrelic'')"
proof (cases x)
  case (JDict c)
  show ?thesis
    using assms unfolding JDict
    by (auto simp: Let_def split: if_splits prod.splits sum.splits)
qed (use assms in simp_all)

section \<open>Properties of the transformer\<close>

subsection \<open>Dictionaries and the exception monad\<close>

lemma map_of_dict_set: "map_of (dict_set kvs k v) = (map_of kvs)(k \<mapsto> v)"
  by (induction kvs) (auto simp: fun_eq_iff)

lemma dict_set_not_Nil: "dict_set kvs k v \<noteq> []"
  by (cases kvs) (auto split: if_splits)

lemma bind_exn_Inr: "bind_exn m f = Inr t \<longleftrightarrow> (\<exists>v. m = Inr v \<and> f v = Inr t)"
  by (cases m) (auto simp: bind_exn_def)

lemma bind_exn_simps: "bind_exn (Inr v) f = f v" "bind_exn (Inl e) f = Inl e"
  by (simp_all add: bind_exn_def)

lemma py_getitem_truthy:
  "py_truthy (dict_get t k JNull) \<Longrightarrow> py_getitem (JDict t) k = Inr (dict_get t k JNull)"
  by (auto simp: dict_get_def split: option.splits)

lemma or_else_Inr: "or_else (Inr x) b = (if py_truthy x then Inr x else b)"
  by (simp add: or_else_def)

subsection \<open>The blocks of \<^verbatim>\<open>transform_database\<close>: what each keeps, when each returns\<close>

lemma base_configuration_fields:
  assumes "base_configuration db creds = Inr a"
  shows "map_of a ''user'' = Some (user creds) \<and> map_of a ''password'' = Some (password creds)
         \<and> map_of a ''service_name'' = Some (dict_get db ''name'' JNull)"
  using assms unfolding base_configuration_def Let_def
  by (auto simp: bind_exn_Inr)

lemma database_specific_fields_keeps:
  assumes "database_specific_fields db a = Inr a'" "k \<noteq> ''database''" "k \<noteq> ''sslmode''"
  shows "map_of a' k = map_of a k"
  using assms unfolding database_specific_fields_def Let_def
  by (auto simp: bind_exn_Inr map_of_dict_set split: if_splits)

lemma monitoring_settings_keeps:
  assumes "monitoring_settings db a = Inr a'"
    "k \<notin> {''extended_metrics'', ''interval'', ''enable_query_monitoring'',
          ''query_metrics_interval'', ''max_sql_query_length'', ''gather_query_samples''}"
  shows "map_of a' k = map_of a k"
  using assms unfolding monitoring_settings_def Let_def
  by (auto simp: bind_exn_Inr map_of_dict_set)

lemma postgresql_specific_keeps:
  assumes "postgresql_specific db a = Inr a'"
    "k \<noteq> ''collect_bloat_metrics''" "k \<noteq> ''collect_db_lock_metrics''"
  shows "map_of a' k = map_of a k"
  using assms unfolding postgresql_specific_def Let_def
  by (auto simp: bind_exn_Inr map_of_dict_set split: if_splits)

lemma tls_settings_keeps:
  assumes "tls_settings db a = Inr a'" "k \<noteq> ''tls_enabled''" "k \<noteq> ''tls_ca''"
  shows "map_of a' k = map_of a k"
  using assms unfolding tls_settings_def Let_def
  by (auto simp: bind_exn_Inr map_of_dict_set split: if_splits)

lemma custom_labels_field_keeps:
  assumes "custom_labels_field db a = Inr a'" "k \<noteq> ''custom_labels''"
  shows "map_of a' k = map_of a k"
  using assms unfolding custom_labels_field_def
  by (auto simp: map_of_dict_set split: jv.splits)

lemma custom_labels_field_not_Nil: "custom_labels_field db a = Inr a' \<Longrightarrow> a' \<noteq> []"
  unfolding custom_labels_field_def
  by (auto simp: dict_set_not_Nil split: jv.splits)

lemma base_configuration_returns:
  assumes "map_of db ''type'' = Some ty"
      and "dict_get db ''connection'' (JDict []) = JDict conn"
      and "dict_get db ''labels'' (JDict []) = JDict l"
  shows "base_configuration db creds =
           Inr [(''host'', py_or (py_or (dict_get conn ''host'' JNull)
                                        (dict_get conn ''endpoint'' JNull))
                                 (dict_get conn ''cluster_endpoint'' JNull)),
                (''port'', dict_get conn ''port''
                             (JInt (if ty = JStr ''mysql'' then 3306 else 5432))),
                (''user'', user creds), (''password'', password creds),
                (''service_name'', dict_get db ''name'' JNull),
                (''environment'', dict_get l ''environment'' (JStr ''production''))]"
  using assms unfolding base_configuration_def Let_def
  by (simp add: bind_exn_simps or_else_Inr py_or_def)

lemma database_specific_fields_returns:
  assumes "map_of db ''type'' = Some ty"
      and "dict_get db ''connection'' (JDict []) = JDict conn"
  shows "\<exists>a'. database_specific_fields db a = Inr a'"
  using assms unfolding database_specific_fields_def Let_def
  by (simp add: bind_exn_simps)

lemma monitoring_settings_returns:
  assumes "dict_get db ''monitoring'' (JDict []) = JDict m"
  shows "\<exists>a'. monitoring_settings db a = Inr a'"
  using assms unfolding monitoring_settings_def Let_def
  by (simp add: bind_exn_simps)

lemma postgresql_specific_returns:
  assumes "map_of db ''type'' = Some ty"
      and "dict_get db ''monitoring'' (JDict []) = JDict m"
  shows "\<exists>a'. postgresql_specific db a = Inr a'"
  using assms unfolding postgresql_specific_def Let_def
  by (simp add: bind_exn_simps)

lemma tls_settings_returns:
  assumes "dict_get db ''tls'' (JDict []) = JDict t"
  shows "\<exists>a'. tls_settings db a = Inr a'"
  using assms py_getitem_truthy [of t "''ca_bundle_file''"] unfolding tls_settings_def Let_def
  by (simp add: bind_exn_simps del: py_getitem.simps)

lemma custom_labels_field_returns:
  assumes "dict_get db ''labels'' (JDict []) = JDict l"
  shows "\<exists>a'. custom_labels_field db a = Inr a'"
  using assms unfolding custom_labels_field_def by simp

lemma ansible_entry_returns:
  assumes ty: "map_of db ''type'' = Some ty"
      and c: "dict_get db ''connection'' (JDict []) = JDict conn"
      and l: "dict_get db ''labels'' (JDict []) = JDict l"
      and m: "dict_get db ''monitoring'' (JDict []) = JDict m"
      and t: "dict_get db ''tls'' (JDict []) = JDict t"
  shows "\<exists>flat. ansible_entry db creds = Inr (JDict flat)"
proof -
  obtain a1 where a1: "base_configuration db creds = Inr a1"
    using base_configuration_returns [OF ty c l] by blast
  obtain a2 where a2: "database_specific_fields db a1 = Inr a2"
    using database_specific_fields_returns [OF ty c] by blast
  obtain a3 where a3: "monitoring_settings db a2 = Inr a3"
    using monitoring_settings_returns [OF m] by blast
  obtain a4 where a4: "postgresql_specific db a3 = Inr a4"
    using postgresql_specific_returns [OF ty m] by blast
  obtain a5 where a5: "tls_settings db a4 = Inr a5"
    using tls_settings_returns [OF t] by blast
  obtain a6 where a6: "custom_labels_field db a5 = Inr a6"
    using custom_labels_field_returns [OF l] by blast
  show ?thesis
    unfolding ansible_entry_def by (simp add: a1 a2 a3 a4 a5 a6 bind_exn_simps)
qed

lemma base_keys_not_later:
  assumes "k \<in> base_keys"
  shows "k \<noteq> ''database''" "k \<noteq> ''sslmode''"
    "k \<notin> {''extended_metrics'', ''interval'', ''enable_query_monitoring'',
          ''query_metrics_interval'', ''max_sql_query_length'', ''gather_query_samples''}"
    "k \<noteq> ''collect_bloat_metrics''" "k \<noteq> ''collect_db_lock_metrics''"
    "k \<noteq> ''tls_enabled''" "k \<noteq> ''tls_ca''" "k \<noteq> ''custom_labels''"
  using assms unfolding base_keys_def by auto

text \<open>A key of the opening display keeps its value to the end, and the entry built
  is a dictionary that is not empty.\<close>

lemma ansible_entry_keeps:
  assumes "ansible_entry db creds = Inr t"
      and k: "k \<in> base_keys"
  shows "\<exists>base flat. base_configuration db creds = Inr base \<and> t = JDict flat \<and> flat \<noteq> []
           \<and> map_of flat k = map_of base k"
proof -
  from assms(1) obtain a1 a2 a3 a4 a5 a6 where
    a1: "base_configuration db creds = Inr a1" and
    a2: "database_specific_fields db a1 = Inr a2" and
    a3: "monitoring_settings db a2 = Inr a3" and
    a4: "postgresql_specific db a3 = Inr a4" and
    a5: "tls_settings db a4 = Inr a5" and
    a6: "custom_labels_field db a5 = Inr a6" and
    t: "t = JDict a6"
    unfolding ansible_entry_def by (auto simp: bind_exn_Inr)
  note nk = base_keys_not_later [OF k]
  have "map_of a6 k = map_of a5 k"
    by (rule custom_labels_field_keeps [OF a6 nk(8)])
  also have "\<dots> = map_of a4 k"
    by (rule tls_settings_keeps [OF a5 nk(6) nk(7)])
  also have "\<dots> = map_of a3 k"
    by (rule postgresql_specific_keeps [OF a4 nk(4) nk(5)])
  also have "\<dots> = map_of a2 k"
    by (rule monitoring_settings_keeps [OF a3 nk(3)])
  also have "\<dots> = map_of a1 k"
    by (rule database_specific_fields_keeps [OF a2 nk(1) nk(2)])
  finally show ?thesis
    using a1 t custom_labels_field_not_Nil [OF a6] by simp
qed

subsection \<open>\<^verbatim>\<open>transform_database\<close>\<close>

lemma transform_database_result:
  "snd (transform_database E d w) = snd (transform_database E d w')"
proof (cases d)
  case (JDict db)
  show ?thesis
    using resolve_credentials_result [of E "dict_get db ''credentials'' (JDict [])" w w']
    unfolding JDict
    by (auto split: prod.splits sum.splits)
qed simp_all

lemma transform_database_Inr:
  assumes "transform_database E d w = (w', Inr t)"
  shows "\<exists>db. d = JDict db \<and>
           (if is_disabled d then t = JNull \<and> w' = w
            else \<exists>creds. resolve_credentials E (dict_get db ''credentials'' (JDict [])) w
                           = (w', Inr creds)
                         \<and> ansible_entry db creds = Inr t)"
proof (cases d)
  case (JDict db)
  show ?thesis
    using assms unfolding JDict
    by (auto split: if_splits prod.splits sum.splits)
qed (use assms in simp_all)

lemma transform_disabled:
  "\<not> py_truthy (dict_get db ''enabled'' (JBool True)) \<Longrightarrow>
   transform_database E (JDict db) w = (w, Inr JNull)"
  by simp

lemma transform_scenario_entry:
  "transform_database E (JDict scenario_entry) w = (w, Inr (JDict scenario_flat))"
  by (simp add: scenario_entry_def scenario_credentials_def scenario_flat_def dict_get_def
        ansible_entry_def base_configuration_def database_specific_fields_def
        monitoring_settings_def postgresql_specific_def tls_settings_def
        custom_labels_field_def custom_labels_def bind_exn_def or_else_def)

text \<open>
  C3, as stated: the flat entry's \<^verbatim>\<open>user\<close> is what the resolver gives for the entry's
  \<^verbatim>\<open>user_source\<close> and its companion field. It fails on the credentials of the
  specification's own scenario, \<^verbatim>\<open>{"user": "u", "password": "p"}\<close>: a plain user
  \<^verbatim>\<open>u\<close>, and the flat entry's user is \<^verbatim>\<open>newrelic\<close>.
\<close>

theorem username_by_source_counterexample:
  "spec_resolve_user unreachable_stores scenario_credentials = Some (JStr ''u'')
   \<and> flat_field (snd (transform_database unreachable_stores (JDict scenario_entry) no_effects))
        ''user'' = Some (JStr ''newrelic'')"
proof (rule conjI)
  show "spec_resolve_user unreachable_stores scenario_credentials = Some (JStr ''u'')"
    by (simp add: spec_resolve_user_def scenario_credentials_def dict_get_def)
  show "flat_field (snd (transform_database unreachable_stores (JDict scenario_entry) no_effects))
          ''user'' = Some (JStr ''newrelic'')"
    unfolding transform_scenario_entry
    by (simp add: flat_field_def scenario_flat_def)
qed

text \<open>
  C3, amended: for every entry that the transformer turns into a flat entry, the
  credentials are a dictionary and the flat entry's \<^verbatim>\<open>user\<close> is their \<^verbatim>\<open>username\<close> field
  as it stands, \<^verbatim>\<open>newrelic\<close> when they have none. Only the password goes through the
  source branches; \<^verbatim>\<open>user_source\<close>, \<^verbatim>\<open>user\<close>, \<^verbatim>\<open>user_key\<close> and \<^verbatim>\<open>user_env\<close> are not read,
  and what the password resolution does (a fetch, a failure) does not change the user.
\<close>

theorem username_is_literal:
  assumes "transform_database E (JDict db) w = (w', Inr (JDict flat))"
  shows "\<exists>c. dict_get db ''credentials'' (JDict []) = JDict c
           \<and> map_of flat ''user'' = Some (dict_get c ''username'' (JStr ''newrelic''))"
proof -
  from transform_database_Inr [OF assms] obtain creds where
    rc: "resolve_credentials E (dict_get db ''credentials'' (JDict [])) w = (w', Inr creds)"
    and ae: "ansible_entry db creds = Inr (JDict flat)"
    by (auto split: if_splits)
  from resolve_credentials_user [OF rc] obtain c where
    c: "dict_get db ''credentials'' (JDict []) = JDict c"
    and u: "user creds = dict_get c ''username'' (JStr ''newrelic'')"
    by blast
  have k: "''user'' \<in> base_keys" by (simp add: base_keys_def)
  from ansible_entry_keeps [OF ae k] base_configuration_fields
  have "map_of flat ''user'' = Some (user creds)" by auto
  with c u show ?thesis by simp
qed

theorem username_is_literal_witness:
  "dict_get scenario_entry ''credentials'' (JDict []) = JDict scenario_credentials
   \<and> map_of scenario_flat ''user'' = Some (JStr ''newrelic'')
   \<and> dict_get scenario_credentials ''username'' (JStr ''newrelic'') = JStr ''newrelic''"
  using username_is_literal [OF transform_scenario_entry [of unreachable_stores no_effects]]
  by (simp add: scenario_entry_def scenario_credentials_def dict_get_def)

subsection \<open>\<^verbatim>\<open>transform_config\<close>\<close>

text \<open>The list one engine's loop returns: the flat entries of the survivors, in order.\<close>

lemma transform_all_result:
  assumes "transform_all E ds acc w = (w', Inr res)"
  shows "\<exists>ts. res = acc @ ts \<and> list_all2 (transforms_to E) (survivors ds) ts"
  using assms
proof (induction ds arbitrary: acc w)
  case Nil
  then show ?case by (simp add: survivors_def)
next
  case (Cons d ds)
  from Cons.prems obtain w1 t where
    td: "transform_database E d w = (w1, Inr t)" and
    rest: "transform_all E ds (if py_truthy t then acc @ [t] else acc) w1 = (w', Inr res)"
    by (auto split: prod.splits sum.splits)
  from Cons.IH [OF rest] obtain ts where
    ts: "res = (if py_truthy t then acc @ [t] else acc) @ ts"
    and all: "list_all2 (transforms_to E) (survivors ds) ts"
    by blast
  from transform_database_Inr [OF td] obtain db where db: "d = JDict db" and
    cases: "if is_disabled d then t = JNull \<and> w1 = w
            else \<exists>creds. resolve_credentials E (dict_get db ''credentials'' (JDict [])) w
                           = (w1, Inr creds) \<and> ansible_entry db creds = Inr t"
    by blast
  show ?case
  proof (cases "is_disabled d")
    case True
    with cases ts all show ?thesis by (simp add: survivors_def)
  next
    case False
    with cases obtain creds where ae: "ansible_entry db creds = Inr t" by auto
    have k: "''user'' \<in> base_keys" by (simp add: base_keys_def)
    from ansible_entry_keeps [OF ae k] have truthy: "py_truthy t" by auto
    have "transforms_to E d t"
      unfolding transforms_to_def
      using transform_database_result [of E d no_effects w] td by simp
    with False truthy ts all show ?thesis by (simp add: survivors_def)
  qed
qed

lemma bucket_holdsI:
  assumes "list_all2 (transforms_to E) entries ts"
  shows "bucket_holds E entries (if ts \<noteq> [] then Some (JList ts) else None)"
  using assms by (auto simp: bucket_holds_def)

text \<open>
  C6. Whenever \<^verbatim>\<open>transform_config\<close> returns an output for a configuration: the entries
  of each engine's input list that are not dropped by the \<^verbatim>\<open>enabled\<close> guard are its
  survivors, an entry with \<^verbatim>\<open>enabled = false\<close> is never one of them, the output's
  \<^verbatim>\<open>mysql_databases\<close> and \<^verbatim>\<open>postgresql_databases\<close> hold exactly the flat entries of the
  survivors, one for each and in order, and an engine without survivors has no key in
  the output at all (not a key bound to an empty list).
\<close>

theorem disabled_absent_empty_omitted:
  assumes "transform_config E (JDict cfg) w = (w', Inr out)"
  shows "\<exists>ms ps flat.
           py_iter (dict_get cfg ''mysql_databases'' (JList [])) = Inr ms
         \<and> py_iter (dict_get cfg ''postgresql_databases'' (JList [])) = Inr ps
         \<and> out = JDict flat
         \<and> bucket_holds E (survivors ms) (map_of flat ''mysql_databases'')
         \<and> bucket_holds E (survivors ps) (map_of flat ''postgresql_databases'')
         \<and> (\<forall>db. map_of db ''enabled'' = Some (JBool False) \<longrightarrow>
                JDict db \<notin> set (survivors ms) \<and> JDict db \<notin> set (survivors ps))"
proof -
  define base where "base =
    [(''newrelic_license_key'', environ_str E ''NEWRELIC_LICENSE_KEY'' ''YOUR_LICENSE_KEY''),
     (''newrelic_account_id'', environ_str E ''NEWRELIC_ACCOUNT_ID'' ''YOUR_ACCOUNT_ID'')]"
  define with_mysql where "with_mysql = (\<lambda>mysql_dbs.
     if mysql_dbs \<noteq> [] then dict_set base ''mysql_databases'' (JList mysql_dbs) else base)"
  define with_both where "with_both = (\<lambda>mysql_dbs postgres_dbs.
     if postgres_dbs \<noteq> [] then
       dict_set (with_mysql mysql_dbs) ''postgresql_databases'' (JList postgres_dbs)
     else with_mysql mysql_dbs)"
  from assms obtain ms w1 mysql_dbs ps postgres_dbs where
    ms: "py_iter (dict_get cfg ''mysql_databases'' (JList [])) = Inr ms" and
    tm: "transform_all E ms [] w = (w1, Inr mysql_dbs)" and
    ps: "py_iter (dict_get cfg ''postgresql_databases'' (JList [])) = Inr ps" and
    tp: "transform_all E ps [] w1 = (w', Inr postgres_dbs)" and
    out: "out = JDict (with_both mysql_dbs postgres_dbs)"
    unfolding base_def with_mysql_def with_both_def
    by (auto simp: Let_def split: sum.splits prod.splits)
  from transform_all_result [OF tm]
  have m: "list_all2 (transforms_to E) (survivors ms) mysql_dbs" by simp
  from transform_all_result [OF tp]
  have p: "list_all2 (transforms_to E) (survivors ps) postgres_dbs" by simp
  have fm: "map_of (with_both mysql_dbs postgres_dbs) ''mysql_databases'' =
              (if mysql_dbs \<noteq> [] then Some (JList mysql_dbs) else None)"
    unfolding with_both_def with_mysql_def base_def by (simp add: map_of_dict_set)
  have fp: "map_of (with_both mysql_dbs postgres_dbs) ''postgresql_databases'' =
              (if postgres_dbs \<noteq> [] then Some (JList postgres_dbs) else None)"
    unfolding with_both_def with_mysql_def base_def by (simp add: map_of_dict_set)
  have dis: "map_of db ''enabled'' = Some (JBool False) \<Longrightarrow> JDict db \<notin> set (survivors xs)"
    for db xs
    by (simp add: survivors_def dict_get_def)
  have bm: "bucket_holds E (survivors ms)
              (map_of (with_both mysql_dbs postgres_dbs) ''mysql_databases'')"
    unfolding fm by (rule bucket_holdsI [OF m])
  have bp: "bucket_holds E (survivors ps)
              (map_of (with_both mysql_dbs postgres_dbs) ''postgresql_databases'')"
    unfolding fp by (rule bucket_holdsI [OF p])
  show ?thesis
    using ms ps out bm bp dis by blast
qed

lemma transform_mixed_config:
  "transform_config unreachable_stores (JDict mixed_config) no_effects =
     (no_effects,
      Inr (JDict [(''newrelic_license_key'', JStr ''YOUR_LICENSE_KEY''),
                  (''newrelic_account_id'', JStr ''YOUR_ACCOUNT_ID''),
                  (''mysql_databases'', JList [JDict scenario_flat])]))"
proof -
  have e: "environ_str unreachable_stores n d = JStr d" for n d
    by (simp add: environ_str_def unreachable_stores_def)
  have d1: "transform_database unreachable_stores (JDict disabled_old) w = (w, Inr JNull)" for w
    by (rule transform_disabled) (simp add: disabled_old_def dict_get_def)
  have d2: "transform_database unreachable_stores
              (JDict [(''name'', JStr ''pg''), (''enabled'', JBool False)]) w = (w, Inr JNull)" for w
    by (rule transform_disabled) (simp add: dict_get_def)
  have nonempty: "scenario_flat \<noteq> []" by (simp add: scenario_flat_def)
  show ?thesis
    by (simp add: mixed_config_def dict_get_def e d1 d2 transform_scenario_entry nonempty
          del: transform_database.simps)
qed

text \<open>The disabled entries leave no trace: one flat entry for MySQL, no PostgreSQL key.\<close>

theorem disabled_absent_empty_omitted_witness:
  "bucket_holds unreachable_stores [JDict scenario_entry] (Some (JList [JDict scenario_flat]))
   \<and> bucket_holds unreachable_stores [] None
   \<and> JDict disabled_old \<notin> set (survivors [JDict disabled_old, JDict scenario_entry])"
  using disabled_absent_empty_omitted [OF transform_mixed_config]
  by (simp add: mixed_config_def dict_get_def survivors_def scenario_entry_def disabled_old_def)

text \<open>
  C7. An enabled entry of any type whose connection has the endpoint \<^verbatim>\<open>a.b.com\<close>, the
  port 3306 and no \<^verbatim>\<open>host\<close>, and whose credentials are the plain password \<^verbatim>\<open>secret1\<close>
  (its optional sections \<^verbatim>\<open>labels\<close>, \<^verbatim>\<open>monitoring\<close> and \<^verbatim>\<open>tls\<close> dictionaries when present,
  whatever its provider), is transformed, without any effect, into a flat entry with
  \<^verbatim>\<open>host = a.b.com\<close>, \<^verbatim>\<open>port = 3306\<close> and \<^verbatim>\<open>password = secret1\<close>: the endpoint is the host
  when there is no host, and port and plain password pass through unchanged.
\<close>

theorem rds_endpoint_plain_roundtrip:
  assumes enabled: "py_truthy (dict_get db ''enabled'' (JBool True))"
      and ty: "map_of db ''type'' = Some ty"
      and conn: "map_of db ''connection'' = Some (JDict conn)"
      and endpoint: "map_of conn ''endpoint'' = Some (JStr ''a.b.com'')"
      and port: "map_of conn ''port'' = Some (JInt 3306)"
      and host: "map_of conn ''host'' = None"
      and creds: "map_of db ''credentials'' = Some (JDict c)"
      and src: "map_of c ''password_source'' = Some (JStr ''plain'')"
      and pw: "map_of c ''password'' = Some (JStr ''secret1'')"
      and labels: "map_of db ''labels'' = None \<or> (\<exists>l. map_of db ''labels'' = Some (JDict l))"
      and monitoring:
        "map_of db ''monitoring'' = None \<or> (\<exists>m. map_of db ''monitoring'' = Some (JDict m))"
      and tls: "map_of db ''tls'' = None \<or> (\<exists>t. map_of db ''tls'' = Some (JDict t))"
  shows "\<exists>flat. transform_database E (JDict db) w = (w, Inr (JDict flat))
           \<and> map_of flat ''host'' = Some (JStr ''a.b.com'')
           \<and> map_of flat ''port'' = Some (JInt 3306)
           \<and> map_of flat ''password'' = Some (JStr ''secret1'')"
proof -
  define r where "r = \<lparr>user = dict_get c ''username'' (JStr ''newrelic''),
                        password = JStr ''secret1''\<rparr>"
  have rc: "resolve_credentials E (JDict c) w = (w, Inr r)"
    using src pw by (simp add: dict_get_def r_def)
  obtain l where l: "dict_get db ''labels'' (JDict []) = JDict l"
    using labels by (auto simp: dict_get_def)
  obtain m where m: "dict_get db ''monitoring'' (JDict []) = JDict m"
    using monitoring by (auto simp: dict_get_def)
  obtain t where t: "dict_get db ''tls'' (JDict []) = JDict t"
    using tls by (auto simp: dict_get_def)
  have c': "dict_get db ''connection'' (JDict []) = JDict conn"
    using conn by (simp add: dict_get_def)
  obtain flat where flat: "ansible_entry db r = Inr (JDict flat)"
    using ansible_entry_returns [OF ty c' l m t] by blast
  have base: "base_configuration db r =
      Inr [(''host'', JStr ''a.b.com''), (''port'', JInt 3306), (''user'', user r),
           (''password'', JStr ''secret1''), (''service_name'', dict_get db ''name'' JNull),
           (''environment'', dict_get l ''environment'' (JStr ''production''))]"
    unfolding base_configuration_returns [OF ty c' l]
    using endpoint port host by (simp add: dict_get_def py_or_def r_def)
  have kh: "''host'' \<in> base_keys" and kp: "''port'' \<in> base_keys"
    and kw: "''password'' \<in> base_keys"
    by (simp_all add: base_keys_def)
  have fh: "map_of flat ''host'' = Some (JStr ''a.b.com'')"
    using ansible_entry_keeps [OF flat kh] base by auto
  have fp: "map_of flat ''port'' = Some (JInt 3306)"
    using ansible_entry_keeps [OF flat kp] base by auto
  have fw: "map_of flat ''password'' = Some (JStr ''secret1'')"
    using ansible_entry_keeps [OF flat kw] base by auto
  have "transform_database E (JDict db) w = (w, Inr (JDict flat))"
    using enabled creds rc flat by (simp add: dict_get_def)
  with fh fp fw show ?thesis by blast
qed

theorem rds_endpoint_plain_roundtrip_witness:
  "\<exists>flat. transform_database unreachable_stores (JDict rds_entry) no_effects
             = (no_effects, Inr (JDict flat))
         \<and> map_of flat ''host'' = Some (JStr ''a.b.com'')
         \<and> map_of flat ''port'' = Some (JInt 3306)
         \<and> map_of flat ''password'' = Some (JStr ''secret1'')"
  by (rule rds_endpoint_plain_roundtrip
        [of rds_entry "JStr ''mysql''"
            "[(''endpoint'', JStr ''a.b.com''), (''port'', JInt 3306)]"
            "[(''password_source'', JStr ''plain''), (''password'', JStr ''secret1'')]"])
     (simp_all add: rds_entry_def dict_get_def)

section \<open>Properties of the schema validator\<close>

subsection \<open>The scenario entry\<close>

lemma show_nat_digit: "n < 10 \<Longrightarrow> show_nat n = [digit_char n]"
  by (simp add: show_nat.simps)

lemma entry_prefix_0: "entry_prefix t 0 = t @ ''[0]''"
  by (simp add: entry_prefix_def show_nat_digit digit_char_def)

lemma entry_prefix_1: "entry_prefix t 1 = t @ ''[1]''"
  by (simp add: entry_prefix_def show_nat_digit digit_char_def)

lemma db1_name: "validate_name (JStr ''db1'') = Inr True"
  by (simp add: validate_name_def at_end_def name_body_def is_alnum_def is_digit_def)

lemma h_host: "validate_host B (JStr ''h'') = Inr True"
  by (simp add: validate_host_def at_end_def hostname_body_def label_ok_def is_alnum_def
        is_digit_def)

lemma validate_scenario_entry:
  "validate_database B (JDict scenario_entry) ''mysql'' i st =
     Inr (add_warning (plain_password_warning i) st)"
  unfolding validate_database_def Let_def
  by (simp add: scenario_entry_def scenario_credentials_def name_validation_def
      type_validation_def connection_section_def credentials_section_def
      monitoring_section_def host_validation_def port_validation_def ssl_validation_def
      username_validation_def password_validation_def resource_name_validation_def
      bind_exn_def dict_get_def dict_has_def db1_name h_host error_if_def source_names_def
      aws_sources_def plain_password_warning_def)

lemma scenario_names: "all_names [JDict scenario_entry] = Inr [''db1'']"
  by (simp add: scenario_entry_def dict_has_def bind_exn_def)

lemma scenario_names_twice:
  "all_names [JDict scenario_entry, JDict scenario_entry] = Inr [''db1'', ''db1'']"
  by (simp add: scenario_entry_def dict_has_def bind_exn_def)

text \<open>
  C4, as stated: \<^verbatim>\<open>validate\<close> returns \<^verbatim>\<open>(true, [], [])\<close> on the scenario's input. The
  result is valid and without errors, but the list of warnings is not empty.
\<close>

theorem scenario_no_warnings_counterexample:
  "validate_config sample_builtins (JDict scenario_config) \<noteq> Inr (True, [], [])"
  by (simp add: scenario_config_def dict_get_def bind_exn_def validate_scenario_entry
       scenario_names add_warning_def check_duplicate_names_def duplicates_def
       del: all_names.simps)

text \<open>
  C4, amended: on the input
  \<^verbatim>\<open>{"mysql_databases":[{"name":"db1","type":"mysql","connection":{"host":"h","port":3306},
  "credentials":{"user":"u","password":"p"}}]}\<close>
  \<^verbatim>\<open>validate\<close> returns \<^verbatim>\<open>isValid = true\<close>, an empty list of errors, and one warning,
  \<^verbatim>\<open>mysql[0].credentials: Using plain text password is not recommended\<close>, whatever the
  built-ins do.
\<close>

theorem scenario_one_warning:
  "validate_config B (JDict scenario_config) =
     Inr (True, [],
          [''mysql[0].credentials: Using plain text password is not recommended''])"
  by (simp add: scenario_config_def dict_get_def bind_exn_def validate_scenario_entry
       scenario_names add_warning_def check_duplicate_names_def duplicates_def
       plain_password_warning_def entry_prefix_0
       del: all_names.simps)

theorem scenario_one_warning_witness:
  "validate_yaml_config sample_builtins (JDict scenario_config) =
     Inr (True, [],
          [''mysql[0].credentials: Using plain text password is not recommended''])"
  using scenario_one_warning [of sample_builtins] by (simp add: validate_yaml_config_def)

subsection \<open>Every error of an entry begins with the entry's prefix\<close>

lemma extends_refl: "extends P st st"
  by (simp add: extends_def)

lemma extends_trans: "extends P a b \<Longrightarrow> extends P b c \<Longrightarrow> extends P a c"
  by (auto simp: extends_def)

lemma extends_mono: "extends P a b \<Longrightarrow> (\<And>e. P e \<Longrightarrow> Q e) \<Longrightarrow> extends Q a b"
  by (auto simp: extends_def list_all_iff)

lemma extends_add_error: "P msg \<Longrightarrow> extends P st (add_error msg st)"
  by (simp add: extends_def add_error_def)

lemma extends_add_warning: "extends P st (add_warning msg st)"
  by (simp add: extends_def add_warning_def)

lemma extends_error_if: "P msg \<Longrightarrow> extends P st (error_if c msg st)"
  by (simp add: error_if_def extends_add_error extends_refl)

lemma prefix_self_append: "prefix p (p @ r)"
  by (simp add: prefix_def)

lemma extends_add_error_pfx: "extends (prefix p) st (add_error (p @ r) st)"
  by (rule extends_add_error) (rule prefix_self_append)

lemma extends_error_if_pfx: "extends (prefix p) st (error_if c (p @ r) st)"
  by (rule extends_error_if) (rule prefix_self_append)

lemmas extends_intros =
  extends_refl extends_add_warning extends_add_error_pfx extends_error_if_pfx

lemma host_validation_extends:
  "host_validation B conn pfx st = Inr st' \<Longrightarrow> extends (prefix pfx) st st'"
  unfolding host_validation_def Let_def
  by (auto simp: bind_exn_Inr extends_intros split: list.splits)

lemma port_validation_extends: "extends (prefix pfx) st (port_validation B conn pfx st)"
  unfolding port_validation_def Let_def by (simp add: extends_intros)

lemma ssl_validation_extends: "extends (prefix pfx) st (ssl_validation B conn pfx st)"
  unfolding ssl_validation_def Let_def by (simp add: extends_intros)

lemma validate_connection_extends:
  assumes "validate_connection B conn pfx st = Inr st'"
  shows "extends (prefix pfx) st st'"
proof (cases conn)
  case (JDict c)
  from assms obtain s1 where s1: "host_validation B c pfx st = Inr s1"
    and st': "st' = ssl_validation B c pfx (port_validation B c pfx s1)"
    unfolding JDict by (auto simp: bind_exn_Inr)
  show ?thesis
    unfolding st'
    by (rule extends_trans [OF host_validation_extends [OF s1]
          extends_trans [OF port_validation_extends ssl_validation_extends]])
qed (use assms in simp_all)

lemma username_validation_extends:
  "extends (prefix pfx) st (username_validation B creds pfx st)"
proof -
  define s1 where "s1 =
    error_if (dict_get creds ''user_source'' (JStr ''plain'') \<notin> source_names)
      (pfx @ ''.credentials: Invalid user_source ''
           @ quoted (py_str B (dict_get creds ''user_source'' (JStr ''plain'')))) st"
  have 1: "extends (prefix pfx) st s1"
    unfolding s1_def by (rule extends_error_if_pfx)
  have 2: "extends (prefix pfx) s1 (username_validation B creds pfx st)"
    unfolding username_validation_def Let_def s1_def [symmetric]
    by (simp add: extends_intros)
  show ?thesis by (rule extends_trans [OF 1 2])
qed

lemma password_validation_extends:
  "extends (prefix pfx) st (password_validation B creds pfx st)"
proof -
  define s1 where "s1 =
    error_if (dict_get creds ''password_source'' (JStr ''plain'') \<notin> source_names)
      (pfx @ ''.credentials: Invalid password_source ''
           @ quoted (py_str B (dict_get creds ''password_source'' (JStr ''plain'')))) st"
  have 1: "extends (prefix pfx) st s1"
    unfolding s1_def by (rule extends_error_if_pfx)
  have 2: "extends (prefix pfx) s1 (password_validation B creds pfx st)"
    unfolding password_validation_def Let_def s1_def [symmetric]
    by (simp add: extends_intros)
  show ?thesis by (rule extends_trans [OF 1 2])
qed

lemma resource_name_validation_extends:
  "resource_name_validation B creds pfx st = Inr st' \<Longrightarrow> extends (prefix pfx) st st'"
  unfolding resource_name_validation_def Let_def
  by (auto simp: bind_exn_Inr extends_intros split: if_splits)

lemma validate_credentials_extends:
  assumes "validate_credentials B creds pfx st = Inr st'"
  shows "extends (prefix pfx) st st'"
proof (cases creds)
  case (JDict c)
  from assms have r: "resource_name_validation B c pfx
       (password_validation B c pfx (username_validation B c pfx st)) = Inr st'"
    unfolding JDict by simp
  show ?thesis
    by (rule extends_trans [OF username_validation_extends
          extends_trans [OF password_validation_extends
            resource_name_validation_extends [OF r]]])
qed (use assms in simp_all)

lemma interval_validation_extends:
  "interval_validation B m pfx st = Inr st' \<Longrightarrow> extends (prefix pfx) st st'"
  unfolding interval_validation_def Let_def
  by (auto simp: bind_exn_Inr extends_intros split: if_splits)

lemma numeric_field_extends:
  "extends (prefix pfx) st (numeric_field m pfx field lo hi bounds st)"
  unfolding numeric_field_def Let_def
  by (auto simp: extends_intros split: option.splits)

lemma numeric_validations_extends: "extends (prefix pfx) st (numeric_validations m pfx st)"
  unfolding numeric_validations_def
  by (rule extends_trans [OF numeric_field_extends
        extends_trans [OF numeric_field_extends numeric_field_extends]])

lemma validate_monitoring_extends:
  assumes "validate_monitoring B mon pfx st = Inr st'"
  shows "extends (prefix pfx) st st'"
proof (cases mon)
  case (JDict m)
  from assms obtain s1 where s1: "interval_validation B m pfx st = Inr s1"
    and st': "st' = numeric_validations m pfx s1"
    unfolding JDict by (auto simp: bind_exn_Inr)
  show ?thesis
    unfolding st'
    by (rule extends_trans [OF interval_validation_extends [OF s1] numeric_validations_extends])
qed (use assms in simp_all)

lemma name_validation_extends:
  "name_validation B db pfx st = Inr st' \<Longrightarrow> extends (prefix pfx) st st'"
  unfolding name_validation_def
  by (auto simp: bind_exn_Inr extends_intros split: if_splits)

lemma type_validation_extends:
  "type_validation B db t pfx st = Inr st' \<Longrightarrow> extends (prefix pfx) st st'"
  unfolding type_validation_def
  by (auto simp: bind_exn_Inr extends_intros split: if_splits)

lemma connection_section_extends:
  "connection_section B db pfx st = Inr st' \<Longrightarrow> extends (prefix pfx) st st'"
  unfolding connection_section_def
  by (auto simp: bind_exn_Inr extends_intros validate_connection_extends split: if_splits)

lemma credentials_section_extends:
  "credentials_section B db pfx st = Inr st' \<Longrightarrow> extends (prefix pfx) st st'"
  unfolding credentials_section_def
  by (auto simp: bind_exn_Inr extends_intros validate_credentials_extends split: if_splits)

lemma monitoring_section_extends:
  "monitoring_section B db pfx st = Inr st' \<Longrightarrow> extends (prefix pfx) st st'"
  unfolding monitoring_section_def
  by (auto simp: bind_exn_Inr extends_intros validate_monitoring_extends split: if_splits)

lemma validate_database_extends:
  assumes "validate_database B db t i st = Inr st'"
  shows "extends (prefix (entry_prefix t i)) st st'"
proof -
  from assms obtain s1 s2 s3 s4 where
    1: "name_validation B db (entry_prefix t i) st = Inr s1" and
    2: "type_validation B db t (entry_prefix t i) s1 = Inr s2" and
    3: "connection_section B db (entry_prefix t i) s2 = Inr s3" and
    4: "credentials_section B db (entry_prefix t i) s3 = Inr s4" and
    5: "monitoring_section B db (entry_prefix t i) s4 = Inr st'"
    unfolding validate_database_def Let_def by (auto simp: bind_exn_Inr)
  show ?thesis
    by (rule extends_trans [OF name_validation_extends [OF 1]
          extends_trans [OF type_validation_extends [OF 2]
            extends_trans [OF connection_section_extends [OF 3]
              extends_trans [OF credentials_section_extends [OF 4]
                monitoring_section_extends [OF 5]]]]])
qed

lemma validate_all_extends:
  "validate_all B t i dbs st = Inr st' \<Longrightarrow> extends (prefix (t @ ''['')) st st'"
proof (induction dbs arbitrary: i st)
  case Nil
  then show ?case by (simp add: extends_refl)
next
  case (Cons db dbs)
  from Cons.prems obtain s1 where s1: "validate_database B db t i st = Inr s1"
    and rest: "validate_all B t (Suc i) dbs s1 = Inr st'"
    by (auto simp: bind_exn_Inr)
  have p: "prefix (t @ ''['') e" if "prefix (entry_prefix t i) e" for e
    using that by (auto simp: entry_prefix_def prefix_def)
  have "extends (prefix (t @ ''['')) st s1"
    by (rule extends_mono [OF validate_database_extends [OF s1] p])
  then show ?case
    by (rule extends_trans [OF _ Cons.IH [OF rest]])
qed

subsection \<open>Duplicate names\<close>

lemma count_list_pos: "x \<in> set xs \<Longrightarrow> 0 < count_list xs x"
  by (induction xs) auto

lemma not_distinct_count: "\<not> distinct xs \<Longrightarrow> \<exists>x\<in>set xs. 1 < count_list xs x"
proof (induction xs)
  case Nil
  then show ?case by simp
next
  case (Cons a xs)
  show ?case
  proof (cases "a \<in> set xs")
    case True
    then have "0 < count_list xs a" by (rule count_list_pos)
    then have "1 < count_list (a # xs) a" by simp
    then show ?thesis by (intro bexI [of _ a]) simp_all
  next
    case False
    with Cons.prems have "\<not> distinct xs" by simp
    from Cons.IH [OF this] obtain x where x: "x \<in> set xs" "1 < count_list xs x" by blast
    then have "1 < count_list (a # xs) x" by simp
    with x(1) show ?thesis by (intro bexI [of _ x]) simp_all
  qed
qed

lemma set_duplicates: "set (duplicates names) = {n. 1 < count_list names n}"
proof -
  have "n \<in> set names" if "1 < count_list names n" for n
  proof (rule ccontr)
    assume "n \<notin> set names"
    then have "count_list names n = 0" by (induction names) auto
    with that show False by simp
  qed
  then show ?thesis by (auto simp: duplicates_def)
qed

lemma duplicates_not_Nil: "\<not> distinct names \<Longrightarrow> duplicates names \<noteq> []"
  using not_distinct_count [of names] set_duplicates [of names]
  by (metis (mono_tags, lifting) empty_iff empty_set mem_Collect_eq)

lemma entry_error_not_duplicate:
  "prefix ''mysql['' e \<or> prefix ''postgresql['' e \<Longrightarrow> \<not> is_duplicate_error e"
  by (auto simp: is_duplicate_error_def prefix_def)

text \<open>
  C5. Whenever \<^verbatim>\<open>validate\<close> returns for a configuration in which the names collected
  over the MySQL entries and then the PostgreSQL entries are not all different, and a
  set is iterated with each element once: the errors hold exactly one duplicate-name
  message, \<^verbatim>\<open>Duplicate service names found: \<close> followed by names joined with a comma
  and a space; these names are the names that occur more than once, each of them
  once, however often it repeats; and the result is invalid.
\<close>

theorem one_duplicate_error:
  assumes order: "set_order_ok B"
      and ret: "validate_config B (JDict cfg) = Inr (valid, errs, warns)"
      and ms: "py_iter (dict_get cfg ''mysql_databases'' (JList [])) = Inr ms"
      and ps: "py_iter (dict_get cfg ''postgresql_databases'' (JList [])) = Inr ps"
      and names: "all_names (ms @ ps) = Inr names"
      and dup: "\<not> distinct names"
  shows "\<exists>ds. distinct ds \<and> set ds = {n. 1 < count_list names n}
           \<and> filter is_duplicate_error errs
                = [''Duplicate service names found: '' @ join '', '' ds]
           \<and> \<not> valid"
proof -
  define ds where "ds = set_order B (duplicates names)"
  define msg where "msg = ''Duplicate service names found: '' @ join '', '' ds"
  from ret ms ps names obtain s1 s2 where
    v1: "validate_all B ''mysql'' 0 ms \<lparr>errors = [], warnings = []\<rparr> = Inr s1" and
    v2: "validate_all B ''postgresql'' 0 ps s1 = Inr s2" and
    res: "valid = (errors (check_duplicate_names B names s2) = [])"
         "errs = errors (check_duplicate_names B names s2)"
    by (auto simp: bind_exn_Inr Let_def)
  from validate_all_extends [OF v1] obtain n1 where
    n1: "errors s1 = n1" "list_all (prefix ''mysql['') n1"
    by (auto simp: extends_def)
  from validate_all_extends [OF v2] obtain n2 where
    n2: "errors s2 = errors s1 @ n2" "list_all (prefix ''postgresql['') n2"
    by (auto simp: extends_def)
  have none: "filter is_duplicate_error (errors s2) = []"
    using n1 n2 entry_error_not_duplicate by (auto simp: list_all_iff filter_empty_conv)
  have errs: "errs = errors s2 @ [msg]" and valid: "\<not> valid"
    using res duplicates_not_Nil [OF dup]
    by (simp_all add: check_duplicate_names_def add_error_def msg_def ds_def)
  have "is_duplicate_error msg"
    by (simp add: msg_def is_duplicate_error_def prefix_self_append)
  with none errs have "filter is_duplicate_error errs = [msg]" by simp
  moreover have "distinct ds" "set ds = {n. 1 < count_list names n}"
    using order set_duplicates [of names] by (simp_all add: ds_def set_order_ok_def)
  ultimately show ?thesis using valid unfolding msg_def by blast
qed

lemma sample_set_order_ok: "set_order_ok sample_builtins"
  by (simp add: set_order_ok_def sample_builtins_def)

lemma validate_duplicate_config:
  "validate_config B (JDict duplicate_config) =
     Inr (False,
          [''Duplicate service names found: '' @ join '', '' (set_order B [''db1'', ''db1''])],
          [plain_password_warning 0, plain_password_warning 1])"
  by (simp add: duplicate_config_def dict_get_def bind_exn_def validate_scenario_entry
       scenario_names_twice add_warning_def add_error_def check_duplicate_names_def
       duplicates_def
       del: all_names.simps)

text \<open>Two MySQL entries both named \<^verbatim>\<open>db1\<close>: the one error is
  \<^verbatim>\<open>Duplicate service names found: db1\<close>.\<close>

lemma validate_duplicate_config_sample:
  "validate_config sample_builtins (JDict duplicate_config) =
     Inr (False, [''Duplicate service names found: db1''],
          [plain_password_warning 0, plain_password_warning 1])"
  unfolding validate_duplicate_config by (simp add: sample_builtins_def)

theorem one_duplicate_error_witness:
  "validate_config sample_builtins (JDict duplicate_config) =
     Inr (False, [''Duplicate service names found: db1''],
          [plain_password_warning 0, plain_password_warning 1])
   \<and> (\<exists>ds. distinct ds \<and> set ds = {n. 1 < count_list [''db1'', ''db1''] n}
           \<and> filter is_duplicate_error [''Duplicate service names found: db1'']
                = [''Duplicate service names found: '' @ join '', '' ds]
           \<and> \<not> False)"
proof (rule conjI)
  show "validate_config sample_builtins (JDict duplicate_config) =
     Inr (False, [''Duplicate service names found: db1''],
          [plain_password_warning 0, plain_password_warning 1])"
    by (rule validate_duplicate_config_sample)
  have ms: "py_iter (dict_get duplicate_config ''mysql_databases'' (JList [])) =
              Inr [JDict scenario_entry, JDict scenario_entry]"
    by (simp add: duplicate_config_def dict_get_def)
  have ps: "py_iter (dict_get duplicate_config ''postgresql_databases'' (JList [])) = Inr []"
    by (simp add: duplicate_config_def dict_get_def)
  have names: "all_names ([JDict scenario_entry, JDict scenario_entry] @ []) =
                 Inr [''db1'', ''db1'']"
    using scenario_names_twice by simp
  show "\<exists>ds. distinct ds \<and> set ds = {n. 1 < count_list [''db1'', ''db1''] n}
           \<and> filter is_duplicate_error [''Duplicate service names found: db1'']
                = [''Duplicate service names found: '' @ join '', '' ds]
           \<and> \<not> False"
    by (rule one_duplicate_error
          [OF sample_set_order_ok validate_duplicate_config_sample ms ps names]) simp
qed

section \<open>Properties of the pipeline\<close>

lemma validate_config_valid:
  "validate_config B cfg = Inr (valid, errs, warns) \<Longrightarrow> valid = (errs = [])"
  by (cases cfg) (auto simp: bind_exn_Inr Let_def)

lemma print_out_fields [simp]:
  "stdout (print_out s w) = stdout w @ [s @ nl]"
  "files (print_out s w) = files w" "eff (print_out s w) = eff w"
  by (simp_all add: print_out_def)

lemma print_each_fields [simp]:
  "stdout (print_each l xs w) = stdout w @ map (\<lambda>x. l @ x @ nl) xs"
  "files (print_each l xs w) = files w" "eff (print_each l xs w) = eff w"
  unfolding print_each_def
  by (induction xs arbitrary: w) simp_all

text \<open>
  C8. An input file that loads to a configuration which \<^verbatim>\<open>validate\<close> judges invalid (a
  list of errors that is not empty): \<^verbatim>\<open>process_file\<close> raises
  \<^verbatim>\<open>ValueError("Invalid configuration")\<close>; what it printed before is the two progress
  lines, the failure heading, every error in order (and the warnings, if any); the
  transformation has not run (nothing fetched, no diagnostic, no progress line of it);
  and the files are the files it started with: no temporary file, and the output path
  as it was.
\<close>

theorem invalid_config_blocks_pipeline:
  assumes load: "load_file C (files w) input_file = Inr cfg"
      and val: "validate_yaml_config B cfg = Inr (valid, errs, warns)"
      and errs: "errs \<noteq> []"
  shows "\<exists>w'. process_file B E C input_file output_file w
                = (w', Inl (Exn ValueError ''Invalid configuration''))
           \<and> files w' = files w \<and> eff w' = eff w
           \<and> stdout w' =
               stdout w
               @ [''Reading configuration from '' @ input_file @ ''...'' @ nl,
                  ''Validating configuration...'' @ nl,
                  nl @ ''Configuration validation failed:'' @ nl]
               @ map (\<lambda>e. ''  ERROR: '' @ e @ nl) errs
               @ (if warns \<noteq> [] then
                    (nl @ ''Warnings:'' @ nl) # map (\<lambda>x. ''  WARNING: '' @ x @ nl) warns
                  else [])"
proof -
  have nv: "\<not> valid"
    using validate_config_valid [of B cfg valid errs warns] val errs
    by (simp add: validate_yaml_config_def)
  show ?thesis
    unfolding process_file_def Let_def
    using load val nv by simp
qed

theorem invalid_config_blocks_pipeline_witness:
  "\<exists>w'. process_file sample_builtins unreachable_stores sample_codec ''in.json'' ''out.yml''
           sample_world = (w', Inl (Exn ValueError ''Invalid configuration''))
         \<and> files w' = files sample_world \<and> eff w' = no_effects
         \<and> stdout w' =
              [''Reading configuration from in.json...'' @ nl,
               ''Validating configuration...'' @ nl,
               nl @ ''Configuration validation failed:'' @ nl,
               ''  ERROR: Duplicate service names found: db1'' @ nl,
               nl @ ''Warnings:'' @ nl,
               ''  WARNING: '' @ plain_password_warning 0 @ nl,
               ''  WARNING: '' @ plain_password_warning 1 @ nl]"
proof -
  have load: "load_file sample_codec (files sample_world) ''in.json'' =
                Inr (JDict duplicate_config)"
    by (simp add: load_file_def sample_world_def sample_codec_def)
  have val: "validate_yaml_config sample_builtins (JDict duplicate_config) =
               Inr (False, [''Duplicate service names found: db1''],
                    [plain_password_warning 0, plain_password_warning 1])"
    unfolding validate_yaml_config_def by (rule validate_duplicate_config_sample)
  show ?thesis
    using invalid_config_blocks_pipeline
            [OF load val, of unreachable_stores "''out.yml''"]
    by (simp add: sample_world_def)
qed

section \<open>Properties of the connection prober\<close>

lemma raising_simps [simp]: "raising None = Inr ()" "raising (Some e) = Inl e"
  by (simp_all add: raising_def)

lemma mysql_failure_generic: "mysql_failure c \<in> generic_messages"
  by (cases c) (simp_all add: generic_messages_def)

lemma mysql_driver_raises_try:
  assumes "mysql_driver_raises D B db e"
  shows "snd (mysql_try D B db) = Inl e"
  using assms
  by (induction rule: mysql_driver_raises.induct)
     (simp_all add: mysql_try_def mysql_session_result_def bind_exn_def Let_def)

text \<open>
  C9. For every MySQL flat entry: (1) when the arguments are there, the connection
  opens, the cursor and the version query succeed and the grants query returns rows
  of strings, and one of \<^verbatim>\<open>SELECT\<close>, \<^verbatim>\<open>PROCESS\<close>, \<^verbatim>\<open>REPLICATION CLIENT\<close> does not occur in
  the upper-cased text of the grants joined by spaces, the probe returns \<^verbatim>\<open>ok = false\<close>
  and \<^verbatim>\<open>Missing permissions: \<close> followed by exactly the missing names, in that order,
  joined by a comma and a space; (2) when a call of the driver raises an exception of
  class \<open>c\<close> with text \<open>t\<close>, the probe returns \<^verbatim>\<open>ok = false\<close> and the message fixed for
  \<open>c\<close>, one of three, whatever \<open>t\<close> is.
\<close>

theorem mysql_probe_messages:
  "(mysql_args db = Inr args \<and> mysql_connect D args = Inr s
      \<and> my_cursor s = None \<and> my_version_query s = None
      \<and> fetchone0 (my_version_row s) = Inr v \<and> my_grants_query s = None
      \<and> rows0 (my_grants_rows s) = Inr cells \<and> strings_of cells = Inr grants
      \<and> missing = filter (\<lambda>perm. \<not> is_substring perm (str_upper B (join '' '' grants)))
                     [''SELECT'', ''PROCESS'', ''REPLICATION CLIENT'']
      \<and> missing \<noteq> []
    \<longrightarrow> snd (test_mysql_connection D B db st)
          = (False, ''Missing permissions: '' @ join '', '' missing))
   \<and> (mysql_driver_raises D B db (Exn c t)
    \<longrightarrow> snd (test_mysql_connection D B db st) = (False, mysql_failure c)
        \<and> mysql_failure c \<in> generic_messages)"
proof (intro conjI impI)
  assume h: "mysql_args db = Inr args \<and> mysql_connect D args = Inr s
      \<and> my_cursor s = None \<and> my_version_query s = None
      \<and> fetchone0 (my_version_row s) = Inr v \<and> my_grants_query s = None
      \<and> rows0 (my_grants_rows s) = Inr cells \<and> strings_of cells = Inr grants
      \<and> missing = filter (\<lambda>perm. \<not> is_substring perm (str_upper B (join '' '' grants)))
                     [''SELECT'', ''PROCESS'', ''REPLICATION CLIENT'']
      \<and> missing \<noteq> []"
  then have m: "filter (\<lambda>perm. \<not> is_substring perm (str_upper B (join '' '' grants)))
                  required_permissions = missing"
    by (simp only: required_permissions_def)
  from h have steps: "mysql_args db = Inr args" "mysql_connect D args = Inr s"
      "my_cursor s = None" "my_version_query s = None"
      "fetchone0 (my_version_row s) = Inr v" "my_grants_query s = None"
      "rows0 (my_grants_rows s) = Inr cells" "strings_of cells = Inr grants"
      and ne: "missing \<noteq> []"
    by blast+
  have "mysql_session_result B s = Inr (False, ''Missing permissions: '' @ join '', '' missing)"
    unfolding mysql_session_result_def Let_def
    using steps ne by (simp add: bind_exn_def m)
  with steps show "snd (test_mysql_connection D B db st)
          = (False, ''Missing permissions: '' @ join '', '' missing)"
    by (simp add: test_mysql_connection_def mysql_try_def bind_exn_def)
next
  assume "mysql_driver_raises D B db (Exn c t)"
  from mysql_driver_raises_try [OF this]
  show "snd (test_mysql_connection D B db st) = (False, mysql_failure c)"
    by (cases "mysql_try D B db") (simp add: test_mysql_connection_def)
next
  show "mysql_failure c \<in> generic_messages" by (rule mysql_failure_generic)
qed

subsection \<open>The probe on a concrete server\<close>

lemma mysql_args_flat: "mysql_args (JDict (flat_entry_with pw)) = Inr (args_with pw)"
  by (simp add: mysql_args_def flat_entry_with_def args_with_def bind_exn_def or_else_def
        dict_get_def)

lemma upper_select_only:
  "str_upper sample_builtins ''GRANT select ON *.* TO newrelic''
     = ''GRANT SELECT ON *.* TO NEWRELIC''"
  by (simp add: sample_builtins_def ascii_upper_def)

lemma missing_select_only:
  "filter (\<lambda>perm. \<not> is_substring perm ''GRANT SELECT ON *.* TO NEWRELIC'')
     [''SELECT'', ''PROCESS'', ''REPLICATION CLIENT''] = [''PROCESS'', ''REPLICATION CLIENT'']"
  by simp

text \<open>The probe of a user granted only \<^verbatim>\<open>select\<close>, written in lower case, and of a server
  that refuses the connection.\<close>

theorem mysql_probe_messages_witness:
  "snd (test_mysql_connection (drivers_granting ''GRANT select ON *.* TO newrelic'')
          sample_builtins (JDict (flat_entry_with ''p'')) fresh)
     = (False, ''Missing permissions: PROCESS, REPLICATION CLIENT'')
   \<and> snd (test_mysql_connection refusing_drivers sample_builtins
            (JDict (flat_entry_with ''p'')) fresh)
     = (False, ''Connection failed: Unable to connect to MySQL database'')"
proof (rule conjI)
  show "snd (test_mysql_connection (drivers_granting ''GRANT select ON *.* TO newrelic'')
          sample_builtins (JDict (flat_entry_with ''p'')) fresh)
     = (False, ''Missing permissions: PROCESS, REPLICATION CLIENT'')"
    using mysql_probe_messages
      [where db = "JDict (flat_entry_with ''p'')" and args = "args_with ''p''"
         and D = "drivers_granting ''GRANT select ON *.* TO newrelic''"
         and s = "session_granting ''GRANT select ON *.* TO newrelic''"
         and v = "JStr ''8.0.36''" and cells = "[JStr ''GRANT select ON *.* TO newrelic'']"
         and grants = "[''GRANT select ON *.* TO newrelic'']"
         and missing = "[''PROCESS'', ''REPLICATION CLIENT'']"
         and B = sample_builtins and st = fresh]
    by (simp add: mysql_args_flat drivers_granting_def session_granting_def fetchone0_def
          row0_def bind_exn_def upper_select_only missing_select_only)
  have "mysql_driver_raises refusing_drivers sample_builtins (JDict (flat_entry_with ''p''))
          (Exn OperationalError ''Access denied for user newrelic'')"
    by (rule mysql_driver_raises.at_connect [OF mysql_args_flat])
       (simp add: refusing_drivers_def refusal_def)
  with mysql_probe_messages
      [where db = "JDict (flat_entry_with ''p'')" and D = refusing_drivers
         and B = sample_builtins and st = fresh and c = OperationalError
         and t = "''Access denied for user newrelic''"]
  show "snd (test_mysql_connection refusing_drivers sample_builtins
            (JDict (flat_entry_with ''p'')) fresh)
     = (False, ''Connection failed: Unable to connect to MySQL database'')"
    by simp
qed

section \<open>Properties of the credential validation\<close>

lemma mysql_args_password:
  "mysql_args db = Inr args \<Longrightarrow> py_getitem db ''password'' = Inr (arg_password args)"
  unfolding mysql_args_def by (auto simp: bind_exn_Inr)

lemma pg_args_password:
  "pg_args db = Inr args \<Longrightarrow> py_getitem db ''password'' = Inr (arg_password args)"
  unfolding pg_args_def by (auto simp: bind_exn_Inr)

lemma attempt_fields [simp]:
  "cv_errors (attempt en a st) = cv_errors st"
  "cv_probes (attempt en None st) = cv_probes st"
  "cv_probes (attempt en (Some args) st) = cv_probes st @ [(en, args)]"
  by (simp_all add: attempt_def split: option.splits)

lemma mysql_probe_ok: "probe_ok (test_mysql_connection D B)"
  unfolding probe_ok_def
proof (intro allI)
  fix db st
  show "cv_errors (fst (test_mysql_connection D B db st)) = cv_errors st
        \<and> (cv_probes (fst (test_mysql_connection D B db st)) = cv_probes st
            \<or> (\<exists>a. cv_probes (fst (test_mysql_connection D B db st)) = cv_probes st @ [a]
                    \<and> py_getitem db ''password'' = Inr (arg_password (snd a))))"
  proof (cases "mysql_args db")
    case (Inl e)
    then show ?thesis
      by (simp add: test_mysql_connection_def mysql_try_def)
  next
    case (Inr args)
    then have "fst (test_mysql_connection D B db st) = attempt MySQL (Some args) st"
      by (simp add: test_mysql_connection_def mysql_try_def split: sum.splits)
    with mysql_args_password [OF Inr] show ?thesis by simp
  qed
qed

lemma pg_session_result_fields:
  "cv_errors (fst (pg_session_result B db s st)) = cv_errors st"
  "cv_probes (fst (pg_session_result B db s st)) = cv_probes st"
  unfolding pg_session_result_def Let_def
  by (simp_all split: sum.splits bool.splits option.splits)

lemma pg_session_result_keeps:
  assumes "pg_session_result B db s st = (st', r)"
  shows "cv_errors st' = cv_errors st" "cv_probes st' = cv_probes st"
  using pg_session_result_fields [of B db s st] assms by simp_all

lemma pg_probe_ok: "probe_ok (test_postgresql_connection D B)"
  unfolding probe_ok_def
proof (intro allI)
  fix db st
  show "cv_errors (fst (test_postgresql_connection D B db st)) = cv_errors st
        \<and> (cv_probes (fst (test_postgresql_connection D B db st)) = cv_probes st
            \<or> (\<exists>a. cv_probes (fst (test_postgresql_connection D B db st)) = cv_probes st @ [a]
                    \<and> py_getitem db ''password'' = Inr (arg_password (snd a))))"
  proof (cases "pg_args db")
    case (Inl e)
    then show ?thesis
      by (simp add: test_postgresql_connection_def)
  next
    case (Inr args)
    have "cv_errors (fst (test_postgresql_connection D B db st)) = cv_errors st"
      and "cv_probes (fst (test_postgresql_connection D B db st))
             = cv_probes st @ [(PostgreSQL, args)]"
      using Inr
      by (auto simp: test_postgresql_connection_def Let_def
            dest: pg_session_result_keeps split: sum.splits prod.splits)
    with pg_args_password [OF Inr] show ?thesis by simp
  qed
qed

lemma guard_false_clean:
  assumes "credential_error db = Inr False" "py_getitem db ''password'' = Inr p"
  shows "py_contains p ''ERROR'' = Inr False"
  using assms
  by (cases db) (auto simp: credential_error_def bind_exn_Inr dict_get_def split: option.splits)

lemma cv_print_fields [simp]:
  "cv_errors (cv_print s st) = cv_errors st" "cv_probes (cv_print s st) = cv_probes st"
  "cv_errors (cv_print_sp s st) = cv_errors st" "cv_probes (cv_print_sp s st) = cv_probes st"
  by (simp_all add: cv_print_def cv_print_sp_def)

text \<open>One turn of the loop.\<close>

lemma check_entry_step:
  assumes ok: "probe_ok probe"
      and run: "check_entry B probe db (st, av) = (st', Inr av')"
  shows "av' \<longrightarrow> av"
    and "\<exists>ne. cv_errors st' = cv_errors st @ ne"
    and "list_all clean_attempt (cv_probes st) \<longrightarrow> list_all clean_attempt (cv_probes st')"
    and "credential_error db = Inr True \<longrightarrow>
           \<not> av' \<and> (\<exists>n. entry_name db = Inr n
                        \<and> py_str B n @ '': Credential resolution failed'' \<in> set (cv_errors st'))"
proof -
  from run obtain n where n: "entry_name db = Inr n"
    by (cases "entry_name db") (simp_all add: check_entry_def)
  define s1 where "s1 = cv_print_sp (''  Checking '' @ py_str B n @ ''...'') st"
  from run obtain g where g: "credential_error db = Inr g"
    by (cases "credential_error db") (simp_all add: check_entry_def n Let_def)
  have all: "(av' \<longrightarrow> av) \<and> (\<exists>ne. cv_errors st' = cv_errors st @ ne)
    \<and> (list_all clean_attempt (cv_probes st) \<longrightarrow> list_all clean_attempt (cv_probes st'))
    \<and> (credential_error db = Inr True \<longrightarrow>
           \<not> av' \<and> (\<exists>n. entry_name db = Inr n
                        \<and> py_str B n @ '': Credential resolution failed'' \<in> set (cv_errors st')))"
  proof (cases g)
    case True
    with run n g have "av' = False"
      and "st' = (cv_print (cross_mark @ '' Failed to resolve credentials'') s1)
                   \<lparr>cv_errors := cv_errors s1 @ [py_str B n @ '': Credential resolution failed'']\<rparr>"
      by (simp_all add: check_entry_def Let_def s1_def)
    then show ?thesis using n by (simp add: s1_def)
  next
    case False
    obtain s2 success message where p: "probe db s1 = (s2, success, message)"
      by (cases "probe db s1") auto
    from ok have e2: "cv_errors s2 = cv_errors st"
      and p2: "cv_probes s2 = cv_probes st
               \<or> (\<exists>a. cv_probes s2 = cv_probes st @ [a]
                      \<and> py_getitem db ''password'' = Inr (arg_password (snd a)))"
      using p unfolding probe_ok_def s1_def
      by (metis cv_print_fields(3) fst_conv, metis cv_print_fields(4) fst_conv)
    have clean: "list_all clean_attempt (cv_probes st) \<longrightarrow> list_all clean_attempt (cv_probes s2)"
      using p2 guard_false_clean [of db] g False
      by (auto simp: clean_attempt_def)
    from run n g False p have res:
      "(st', av') = (if success then (cv_print (check_mark @ '' '' @ message) s2, av)
                     else ((cv_print (cross_mark @ '' '' @ message) s2)
                             \<lparr>cv_errors := cv_errors s2 @ [py_str B n @ '': '' @ message]\<rparr>,
                           False))"
      by (simp add: check_entry_def Let_def s1_def split: if_splits)
    show ?thesis
      using res e2 clean g False by (auto split: if_splits)
  qed
  then show "av' \<longrightarrow> av"
    and "\<exists>ne. cv_errors st' = cv_errors st @ ne"
    and "list_all clean_attempt (cv_probes st) \<longrightarrow> list_all clean_attempt (cv_probes st')"
    and "credential_error db = Inr True \<longrightarrow>
           \<not> av' \<and> (\<exists>n. entry_name db = Inr n
                        \<and> py_str B n @ '': Credential resolution failed'' \<in> set (cv_errors st'))"
    by blast+
qed

lemma check_entries_run:
  assumes ok: "probe_ok probe"
      and run: "check_entries B probe dbs (st, av) = (st', Inr av')"
  shows "(av' \<longrightarrow> av) \<and> (\<exists>ne. cv_errors st' = cv_errors st @ ne)
    \<and> (list_all clean_attempt (cv_probes st) \<longrightarrow> list_all clean_attempt (cv_probes st'))
    \<and> (\<forall>db\<in>set dbs. credential_error db = Inr True \<longrightarrow>
           \<not> av' \<and> (\<exists>n. entry_name db = Inr n
                        \<and> py_str B n @ '': Credential resolution failed'' \<in> set (cv_errors st')))"
  using run
proof (induction dbs arbitrary: st av)
  case Nil
  then show ?case by simp
next
  case (Cons db dbs)
  from Cons.prems obtain s1 a1 where
    step: "check_entry B probe db (st, av) = (s1, Inr a1)" and
    rest: "check_entries B probe dbs (s1, a1) = (st', Inr av')"
    by (auto split: prod.splits sum.splits)
  note s = check_entry_step [OF ok step]
  note r = Cons.IH [OF rest]
  from s(2) r obtain ne1 ne2 where
    e1: "cv_errors s1 = cv_errors st @ ne1" and e2: "cv_errors st' = cv_errors s1 @ ne2"
    by blast
  have mono: "av' \<longrightarrow> av" using s(1) r by blast
  have errs: "\<exists>ne. cv_errors st' = cv_errors st @ ne" using e1 e2 by simp
  have clean: "list_all clean_attempt (cv_probes st) \<longrightarrow> list_all clean_attempt (cv_probes st')"
    using s(3) r by blast
  have head: "credential_error db = Inr True \<longrightarrow>
           \<not> av' \<and> (\<exists>n. entry_name db = Inr n
                        \<and> py_str B n @ '': Credential resolution failed'' \<in> set (cv_errors st'))"
    using s(4) r e2 by auto
  show ?case using mono errs clean head r by simp
qed

lemma check_engine_run:
  assumes ok: "probe_ok probe"
      and run: "check_engine B probe label (dict_get cfg key (JList [])) (st, av) = (st', Inr av')"
  shows "(av' \<longrightarrow> av) \<and> (\<exists>ne. cv_errors st' = cv_errors st @ ne)
    \<and> (list_all clean_attempt (cv_probes st) \<longrightarrow> list_all clean_attempt (cv_probes st'))
    \<and> (\<forall>db\<in>set (listed cfg key). credential_error db = Inr True \<longrightarrow>
           \<not> av' \<and> (\<exists>n. entry_name db = Inr n
                        \<and> py_str B n @ '': Credential resolution failed'' \<in> set (cv_errors st')))"
proof (cases "py_truthy (dict_get cfg key (JList []))")
  case False
  with run show ?thesis by (simp add: check_engine_def listed_def)
next
  case True
  with run obtain n xs where
    it: "py_iter (dict_get cfg key (JList [])) = Inr xs" and
    loop: "check_entries B probe xs
             (cv_print (nl @ ''Validating '' @ show_nat n @ '' '' @ label @ '' database(s)...'') st,
              av) = (st', Inr av')"
    by (auto simp: check_engine_def bind_exn_Inr split: sum.splits)
  have l: "listed cfg key = xs" using True it by (simp add: listed_def)
  from check_entries_run [OF ok loop] show ?thesis unfolding l by simp
qed

lemma is_substring_contains:
  "map_of d ''password'' = Some (JStr p) \<Longrightarrow> is_substring ''ERROR'' p \<Longrightarrow>
   credential_error (JDict d) = Inr True"
  by (simp add: credential_error_def bind_exn_def dict_get_def)

subsection \<open>The run on one flat entry\<close>

lemma upper_all:
  "str_upper sample_builtins ''GRANT SELECT, PROCESS, REPLICATION CLIENT ON *.* TO newrelic''
     = ''GRANT SELECT, PROCESS, REPLICATION CLIENT ON *.* TO NEWRELIC''"
  by (simp add: sample_builtins_def ascii_upper_def)

lemma show_nat_1: "show_nat (Suc 0) = ''1''"
  by (simp add: show_nat.simps digit_char_def)

lemma probe_granted:
  "test_mysql_connection
     (drivers_granting ''GRANT SELECT, PROCESS, REPLICATION CLIENT ON *.* TO newrelic'')
     sample_builtins (JDict (flat_entry_with pw)) st
   = (attempt MySQL (Some (args_with pw)) st, True, ''Connected successfully (MySQL 8.0.36)'')"
  by (simp add: test_mysql_connection_def mysql_try_def mysql_args_flat drivers_granting_def
        session_granting_def mysql_session_result_def fetchone0_def row0_def bind_exn_def
        upper_all required_permissions_def Let_def)

lemma validate_missing_password:
  "validate_loaded
     (drivers_granting ''GRANT SELECT, PROCESS, REPLICATION CLIENT ON *.* TO newrelic'')
     sample_builtins (JDict (flat_config_with ''MISSING_PASSWORD'')) fresh
   = (\<lparr>cv_errors = [], cv_warnings = [],
       cv_out = [check_mark @ '' New Relic license key configured'' @ nl,
                 nl @ ''Validating 1 MySQL database(s)...'' @ nl,
                 ''  Checking db1... '',
                 check_mark @ '' Connected successfully (MySQL 8.0.36)'' @ nl],
       cv_probes = [(MySQL, args_with ''MISSING_PASSWORD'')]\<rparr>,
      Inr True)"
proof -
  have name: "entry_name (JDict (flat_entry_with pw)) = Inr (JStr ''db1'')" for pw
    by (simp add: flat_entry_with_def dict_get_def)
  have guard: "credential_error (JDict (flat_entry_with ''MISSING_PASSWORD'')) = Inr False"
    by (simp add: credential_error_def flat_entry_with_def dict_get_def bind_exn_def)
  show ?thesis
    by (simp add: flat_config_with_def dict_get_def check_engine_def check_entry_def name guard
          probe_granted bind_exn_def Let_def fresh_def cv_print_def cv_print_sp_def attempt_def
          show_nat_1
          del: entry_name.simps)
qed

text \<open>
  C2, as stated: a password beginning \<^verbatim>\<open>MISSING_\<close> is flagged as a credential resolution
  failure without a connection attempt. It fails on the flat entry with the password
  \<^verbatim>\<open>MISSING_PASSWORD\<close>: the guard asks for \<^verbatim>\<open>ERROR\<close> in the password, so the entry is
  probed with the sentinel as its password, and with a server that accepts it the run
  records no error and reports success.
\<close>

theorem missing_sentinel_counterexample:
  "prefix ''MISSING_'' ''MISSING_PASSWORD''
   \<and> snd (validate_loaded
            (drivers_granting ''GRANT SELECT, PROCESS, REPLICATION CLIENT ON *.* TO newrelic'')
            sample_builtins (JDict (flat_config_with ''MISSING_PASSWORD'')) fresh) = Inr True
   \<and> cv_errors (fst (validate_loaded
            (drivers_granting ''GRANT SELECT, PROCESS, REPLICATION CLIENT ON *.* TO newrelic'')
            sample_builtins (JDict (flat_config_with ''MISSING_PASSWORD'')) fresh)) = []
   \<and> cv_probes (fst (validate_loaded
            (drivers_granting ''GRANT SELECT, PROCESS, REPLICATION CLIENT ON *.* TO newrelic'')
            sample_builtins (JDict (flat_config_with ''MISSING_PASSWORD'')) fresh))
       = [(MySQL, args_with ''MISSING_PASSWORD'')]"
  unfolding validate_missing_password by simp

text \<open>
  C2, amended: in a run of the credential validation that returns, every entry visited
  whose password is a string containing \<^verbatim>\<open>ERROR\<close> (so every sentinel beginning \<^verbatim>\<open>ERROR_\<close>)
  is flagged: the run reports failure, the error \<^verbatim>\<open><name>: Credential resolution
  failed\<close> is recorded, and no connection is attempted for it: every connection
  attempted has a password of which the guard does not hold, none has this password.
\<close>

theorem error_sentinel_flagged:
  assumes run: "validate_loaded D B (JDict cfg) st = (st', Inr all_valid)"
      and db: "JDict d \<in> set (listed cfg ''mysql_databases'')
                         \<union> set (listed cfg ''postgresql_databases'')"
      and pw: "map_of d ''password'' = Some (JStr p)"
      and err: "is_substring ''ERROR'' p"
      and clean: "list_all clean_attempt (cv_probes st)"
  shows "\<not> all_valid
       \<and> (\<exists>n. entry_name (JDict d) = Inr n
              \<and> py_str B n @ '': Credential resolution failed'' \<in> set (cv_errors st'))
       \<and> list_all clean_attempt (cv_probes st')
       \<and> (\<forall>a\<in>set (cv_probes st'). arg_password (snd a) \<noteq> JStr p)"
proof -
  define s0 where "s0 =
    (if \<not> py_truthy (dict_get cfg ''newrelic_license_key'' (JStr []))
        \<or> dict_get cfg ''newrelic_license_key'' (JStr []) = JStr ''YOUR_LICENSE_KEY''
     then st\<lparr>cv_errors := cv_errors st @ [''New Relic license key not configured'']\<rparr>
     else cv_print (check_mark @ '' New Relic license key configured'') st)"
  define a0 where "a0 =
    (\<not> (\<not> py_truthy (dict_get cfg ''newrelic_license_key'' (JStr []))
        \<or> dict_get cfg ''newrelic_license_key'' (JStr []) = JStr ''YOUR_LICENSE_KEY''))"
  have p0: "cv_probes s0 = cv_probes st" by (simp add: s0_def)
  from run obtain s1 a1 where
    m: "check_engine B (test_mysql_connection D B) ''MySQL''
          (dict_get cfg ''mysql_databases'' (JList [])) (s0, a0) = (s1, Inr a1)" and
    g: "check_engine B (test_postgresql_connection D B) ''PostgreSQL''
          (dict_get cfg ''postgresql_databases'' (JList [])) (s1, a1) = (st', Inr all_valid)"
    unfolding s0_def a0_def
    by (auto simp: Let_def split: prod.splits sum.splits if_splits)
  note rm = check_engine_run [OF mysql_probe_ok m]
  note rg = check_engine_run [OF pg_probe_ok g]
  have guard: "credential_error (JDict d) = Inr True"
    by (rule is_substring_contains [OF pw err])
  from rg obtain ne where ne: "cv_errors st' = cv_errors s1 @ ne" by blast
  have flagged: "\<not> all_valid
       \<and> (\<exists>n. entry_name (JDict d) = Inr n
              \<and> py_str B n @ '': Credential resolution failed'' \<in> set (cv_errors st'))"
  proof (cases "JDict d \<in> set (listed cfg ''mysql_databases'')")
    case True
    with rm guard have "\<not> a1 \<and> (\<exists>n. entry_name (JDict d) = Inr n
              \<and> py_str B n @ '': Credential resolution failed'' \<in> set (cv_errors s1))"
      by blast
    with rg ne show ?thesis by auto
  next
    case False
    with db have "JDict d \<in> set (listed cfg ''postgresql_databases'')" by simp
    with rg guard show ?thesis by blast
  qed
  have c: "list_all clean_attempt (cv_probes st')"
    using clean p0 rm rg by simp
  have "arg_password (snd a) \<noteq> JStr p" if "a \<in> set (cv_probes st')" for a
  proof
    assume "arg_password (snd a) = JStr p"
    moreover from c that have "clean_attempt a" by (simp add: list_all_iff)
    ultimately show False using err by (simp add: clean_attempt_def)
  qed
  with flagged c show ?thesis by blast
qed

lemma validate_error_password:
  "validate_loaded refusing_drivers sample_builtins
     (JDict (flat_config_with ''ERROR_FETCHING_SECRET'')) fresh
   = (\<lparr>cv_errors = [''db1: Credential resolution failed''], cv_warnings = [],
       cv_out = [check_mark @ '' New Relic license key configured'' @ nl,
                 nl @ ''Validating 1 MySQL database(s)...'' @ nl,
                 ''  Checking db1... '',
                 cross_mark @ '' Failed to resolve credentials'' @ nl],
       cv_probes = []\<rparr>,
      Inr False)"
proof -
  have name: "entry_name (JDict (flat_entry_with pw)) = Inr (JStr ''db1'')" for pw
    by (simp add: flat_entry_with_def dict_get_def)
  have guard: "credential_error (JDict (flat_entry_with ''ERROR_FETCHING_SECRET'')) = Inr True"
    by (simp add: credential_error_def flat_entry_with_def dict_get_def bind_exn_def)
  show ?thesis
    by (simp add: flat_config_with_def dict_get_def check_engine_def check_entry_def name guard
          bind_exn_def Let_def fresh_def cv_print_def cv_print_sp_def show_nat_1
          del: entry_name.simps)
qed

theorem error_sentinel_flagged_witness:
  "entry_name (JDict (flat_entry_with ''ERROR_FETCHING_SECRET'')) = Inr (JStr ''db1'')
   \<and> ''db1: Credential resolution failed''
        \<in> set (cv_errors (fst (validate_loaded refusing_drivers sample_builtins
                     (JDict (flat_config_with ''ERROR_FETCHING_SECRET'')) fresh)))
   \<and> snd (validate_loaded refusing_drivers sample_builtins
            (JDict (flat_config_with ''ERROR_FETCHING_SECRET'')) fresh) = Inr False
   \<and> cv_probes (fst (validate_loaded refusing_drivers sample_builtins
                     (JDict (flat_config_with ''ERROR_FETCHING_SECRET'')) fresh)) = []"
proof -
  have l: "JDict (flat_entry_with ''ERROR_FETCHING_SECRET'')
             \<in> set (listed (flat_config_with ''ERROR_FETCHING_SECRET'') ''mysql_databases'')
               \<union> set (listed (flat_config_with ''ERROR_FETCHING_SECRET'')
                        ''postgresql_databases'')"
    by (simp add: listed_def flat_config_with_def dict_get_def)
  have pw: "map_of (flat_entry_with ''ERROR_FETCHING_SECRET'') ''password''
              = Some (JStr ''ERROR_FETCHING_SECRET'')"
    by (simp add: flat_entry_with_def)
  have sub: "is_substring ''ERROR'' ''ERROR_FETCHING_SECRET''" by simp
  have c: "list_all clean_attempt (cv_probes fresh)" by (simp add: fresh_def)
  from error_sentinel_flagged [OF validate_error_password l pw sub c]
  show ?thesis
    unfolding validate_error_password
    by (simp add: flat_entry_with_def dict_get_def)
qed

end
